theory Spec2Isabelle
  imports Main
begin

section \<open>The dataflow framework and the provider, as far as the two pipelines use them\<close>

text \<open>
  Both scripts only configure a dataflow: they call connectors, build column expressions
  with \<^verbatim>\<open>select\<close>, and hand the result to a response writer. The framework and the
  model provider are not part of the repository, so what they answer is a parameter (the
  record \<open>world\<close> below), and what the scripts ask of them is recorded as a list of events.
  A table is a list of rows keyed by the row identifier the framework assigns; a row is a
  list of named columns, as the keyword arguments of \<^verbatim>\<open>select\<close> name them at run time.
  The model describes one batch of rows going through the graph that \<^verbatim>\<open>pw.run()\<close>
  executes; temperatures and embedding vectors are floating point in the source and are
  only passed through, so their types are left open (\<open>'t\<close> and \<open>'v\<close>).
\<close>

type_synonym pointer = nat

datatype 'v val = Str string | Vec 'v | Tuple "string list" | Ptr pointer

type_synonym 'v row = "(string \<times> 'v val) list"

type_synonym 'v table = "(pointer \<times> 'v row) list"

datatype dtype = PyStr | PyInt | PyFloat

type_synonym schema = "(string \<times> dtype) list"

text \<open>A Python exception: a missing column, an ill-typed argument, tables that do not fit,
  or whatever an external call raises.\<close>

datatype exn = AttributeError string | TypeError | ValueError | ExternalError string

record rest_call =
  rc_host :: string
  rc_port :: int
  rc_schema :: schema
  rc_autocommit_duration_ms :: int

record s3_call =
  s3_path :: string
  s3_bucket_name :: string
  s3_region :: string
  s3_format :: string
  s3_schema :: schema
  s3_mode :: string

record 't chat_request =
  chat_api_key :: string
  chat_text :: string
  chat_locator :: string
  chat_temperature :: 't
  chat_max_tokens :: int

record embed_request =
  embed_api_key :: string
  embed_text :: string
  embed_locator :: string

datatype 't event =
    RestConnector rest_call
  | S3Read s3_call
  | ChatCompletion "'t chat_request"
  | Embedding embed_request

text \<open>What the outside answers: the rows each connector delivers, the provider's reply to
  a chat or embedding request, and the documents the nearest-neighbour index returns for a
  query vector (given the dimension, \<open>k\<close> and the indexed table).\<close>

record ('t, 'v) world =
  rest_requests :: "rest_call \<Rightarrow> exn + 'v table"
  s3_objects :: "s3_call \<Rightarrow> exn + 'v table"
  chat_completion :: "'t chat_request \<Rightarrow> exn + string"
  embedding :: "embed_request \<Rightarrow> exn + 'v"
  nearest_neighbors :: "int \<Rightarrow> nat \<Rightarrow> 'v table \<Rightarrow> 'v \<Rightarrow> exn + string list"

text \<open>A computation yields the external calls it made, in order, and either an exception or
  its value. The model stops a computation at the first call that raises. The engine that
  executes the graph inside \<^verbatim>\<open>pw.run()\<close> does not: it may still send the other requests of
  a batch, and it raises an exception of its own. Which requests still go out and what
  \<^verbatim>\<open>pw.run()\<close> raises is the engine's matter and is not described by the model.\<close>

type_synonym ('t, 'a) io = "'t event list \<times> (exn + 'a)"

definition io_return :: "'a \<Rightarrow> ('t, 'a) io" where
  "io_return a = ([], Inr a)"

definition io_raise :: "exn \<Rightarrow> ('t, 'a) io" where
  "io_raise e = ([], Inl e)"

definition io_bind :: "('t, 'a) io \<Rightarrow> ('a \<Rightarrow> ('t, 'b) io) \<Rightarrow> ('t, 'b) io" where
  "io_bind m f =
     (case m of
        (l, Inl e) \<Rightarrow> (l, Inl e)
      | (l, Inr a) \<Rightarrow> (case f a of (l', r) \<Rightarrow> (l @ l', r)))"

definition external :: "'t event \<Rightarrow> exn + 'a \<Rightarrow> ('t, 'a) io" where
  "external ev answer = ([ev], answer)"

subsection \<open>Connectors\<close>

definition rest_connector ::
  "('t, 'v) world \<Rightarrow> string \<Rightarrow> int \<Rightarrow> schema \<Rightarrow> int \<Rightarrow> ('t, 'v table) io" where
  "rest_connector W host port schema autocommit_duration_ms =
     (let c = \<lparr>rc_host = host, rc_port = port, rc_schema = schema,
                rc_autocommit_duration_ms = autocommit_duration_ms\<rparr>
      in external (RestConnector c) (rest_requests W c))"

definition s3_read ::
  "('t, 'v) world \<Rightarrow> string \<Rightarrow> string \<Rightarrow> string \<Rightarrow> string \<Rightarrow> schema \<Rightarrow> string
     \<Rightarrow> ('t, 'v table) io" where
  "s3_read W path bucket_name region format schema mode =
     (let c = \<lparr>s3_path = path, s3_bucket_name = bucket_name, s3_region = region,
                s3_format = format, s3_schema = schema, s3_mode = mode\<rparr>
      in external (S3Read c) (s3_objects W c))"

subsection \<open>Column expressions and \<^verbatim>\<open>select\<close>\<close>

text \<open>An expression is evaluated on one row; \<^verbatim>\<open>pw.this.id\<close> is the row's identifier and
  \<^verbatim>\<open>pw.this.c\<close> its column \<open>c\<close>.\<close>

type_synonym ('t, 'v) expr = "pointer \<Rightarrow> 'v row \<Rightarrow> ('t, 'v val) io"

definition this_id :: "('t, 'v) expr" where
  "this_id i r = io_return (Ptr i)"

definition this_col :: "string \<Rightarrow> ('t, 'v) expr" where
  "this_col c i r =
     (case map_of r c of
        None \<Rightarrow> io_raise (AttributeError c)
      | Some v \<Rightarrow> io_return v)"

fun eval_columns :: "(string \<times> ('t, 'v) expr) list \<Rightarrow> pointer \<Rightarrow> 'v row \<Rightarrow> ('t, 'v row) io" where
  "eval_columns [] i r = io_return []"
| "eval_columns ((c, e) # es) i r =
     io_bind (e i r) (\<lambda>v.
     io_bind (eval_columns es i r) (\<lambda>rest.
     io_return ((c, v) # rest)))"

text \<open>\<^verbatim>\<open>table.select(c1=e1, ...)\<close>: one output row per input row, under the same identifier,
  with exactly the named columns. In the source a \<^verbatim>\<open>select\<close> only adds a node to the graph
  and its expressions are evaluated when \<^verbatim>\<open>pw.run()\<close> executes the graph; the model
  evaluates them where the table is defined, which gives the same table and the same
  requests whenever nothing raises.\<close>

fun select :: "(string \<times> ('t, 'v) expr) list \<Rightarrow> 'v table \<Rightarrow> ('t, 'v table) io" where
  "select es [] = io_return []"
| "select es ((i, r) # t) =
     io_bind (eval_columns es i r) (\<lambda>r'.
     io_bind (select es t) (\<lambda>t'.
     io_return ((i, r') # t')))"

text \<open>\<^verbatim>\<open>t1 + t2\<close> (and \<^verbatim>\<open>t1 += t2\<close>): the columns of both tables side by side. The
  framework asks for the same row identifiers and disjoint column names.\<close>

definition table_add :: "'v table \<Rightarrow> 'v table \<Rightarrow> ('t, 'v table) io" where
  "table_add t1 t2 =
     (if map fst t1 \<noteq> map fst t2 then io_raise ValueError
      else if list_ex (\<lambda>((i, r1), (j, r2)). list_ex (\<lambda>c. c \<in> set (map fst r2)) (map fst r1))
                (zip t1 t2)
        then io_raise ValueError
      else io_return (map (\<lambda>((i, r1), (j, r2)). (i, r1 @ r2)) (zip t1 t2)))"

subsection \<open>Model wrappers\<close>

text \<open>Modelled from the spec: the classes \<^verbatim>\<open>OpenAIChatGPTModel\<close> and
  \<^verbatim>\<open>OpenAIEmbeddingModel\<close> of \<^verbatim>\<open>llm_app.model_wrappers\<close>, which the pipelines import.
  The spec has them call the provider's chat-completion and embedding endpoints,
  parameterized by model identifier, temperature and maximal token count. A wrapper is built
  from the API key; its \<^verbatim>\<open>apply\<close> is a column expression that sends one request per row,
  with the text of the row and the arguments it was given, and yields the provider's reply.
  A text that is not a string is a type error.\<close>

definition OpenAIChatGPTModel_apply ::
  "('t, 'v) world \<Rightarrow> string \<Rightarrow> ('t, 'v) expr \<Rightarrow> string \<Rightarrow> 't \<Rightarrow> int \<Rightarrow> ('t, 'v) expr" where
  "OpenAIChatGPTModel_apply W api_key text locator temperature max_tokens i r =
     io_bind (text i r) (\<lambda>v.
       case v of
         Str s \<Rightarrow>
           (let req = \<lparr>chat_api_key = api_key, chat_text = s, chat_locator = locator,
                       chat_temperature = temperature, chat_max_tokens = max_tokens\<rparr>
            in io_bind (external (ChatCompletion req) (chat_completion W req)) (\<lambda>answer.
               io_return (Str answer)))
       | _ \<Rightarrow> io_raise TypeError)"

definition OpenAIEmbeddingModel_apply ::
  "('t, 'v) world \<Rightarrow> string \<Rightarrow> ('t, 'v) expr \<Rightarrow> string \<Rightarrow> ('t, 'v) expr" where
  "OpenAIEmbeddingModel_apply W api_key text locator i r =
     io_bind (text i r) (\<lambda>v.
       case v of
         Str s \<Rightarrow>
           (let req = \<lparr>embed_api_key = api_key, embed_text = s, embed_locator = locator\<rparr>
            in io_bind (external (Embedding req) (embedding W req)) (\<lambda>x.
               io_return (Vec x)))
       | _ \<Rightarrow> io_raise TypeError)"

subsection \<open>The nearest-neighbour index\<close>

text \<open>\<^verbatim>\<open>KNNIndex(data, d=...)\<close> keeps the table and the dimension. \<^verbatim>\<open>index.query(q, k)\<close>
  looks the \<^verbatim>\<open>data\<close> column of every query row up and joins the query rows with the
  neighbours found: a query row with at least one neighbour comes back with a \<^verbatim>\<open>result\<close>
  column holding the documents found, a query row without neighbour (an empty index, for
  one) is dropped.\<close>

definition KNNIndex :: "'v table \<Rightarrow> int \<Rightarrow> 'v table \<times> int" where
  "KNNIndex data d = (data, d)"

definition with_column :: "string \<Rightarrow> 'v val \<Rightarrow> 'v row \<Rightarrow> 'v row" where
  "with_column c v r = filter (\<lambda>(c', x). c' \<noteq> c) r @ [(c, v)]"

definition knn_lookup :: "('t, 'v) world \<Rightarrow> 'v table \<times> int \<Rightarrow> nat \<Rightarrow> ('t, 'v) expr" where
  "knn_lookup W index k i r =
     io_bind (this_col ''data'' i r) (\<lambda>v.
       case v of
         Vec x \<Rightarrow>
           (case nearest_neighbors W (snd index) k (fst index) x of
              Inl e \<Rightarrow> io_raise e
            | Inr docs \<Rightarrow> io_return (Tuple docs))
       | _ \<Rightarrow> io_raise TypeError)"

fun index_query :: "('t, 'v) world \<Rightarrow> 'v table \<times> int \<Rightarrow> 'v table \<Rightarrow> nat \<Rightarrow> ('t, 'v table) io" where
  "index_query W index [] k = io_return []"
| "index_query W index ((i, r) # t) k =
     io_bind (knn_lookup W index k i r) (\<lambda>found.
     io_bind (index_query W index t k) (\<lambda>t'.
     io_return (if found = Tuple [] then t' else (i, with_column ''result'' found r) # t')))"

section \<open>The contextless pipeline\<close>

definition QueryInputSchema :: schema where
  "QueryInputSchema = [(''query'', PyStr), (''user'', PyStr)]"

text \<open>\<^verbatim>\<open>run\<close> of \<^verbatim>\<open>examples/pipelines/contextless/app.py\<close>. The keyword arguments are
  parameters (their defaults are \<open>run_defaults\<close>); the value is the table handed to
  \<^verbatim>\<open>response_writer\<close>.\<close>

definition run ::
  "('t, 'v) world \<Rightarrow> string \<Rightarrow> string \<Rightarrow> int \<Rightarrow> string \<Rightarrow> int \<Rightarrow> 't \<Rightarrow> ('t, 'v table) io" where
  "run W api_key host port model_locator max_tokens temperature =
     io_bind (rest_connector W host port QueryInputSchema 50) (\<lambda>query.
     io_bind (select
                [(''query_id'', this_id),
                 (''result'', OpenAIChatGPTModel_apply W api_key (this_col ''query'')
                                model_locator temperature max_tokens)]
                query) (\<lambda>responses.
     io_return responses))"

text \<open>The defaults of the keyword arguments; \<open>t\<close> stands for the float \<^verbatim>\<open>0.8\<close>.\<close>

definition run_defaults :: "('t, 'v) world \<Rightarrow> 't \<Rightarrow> ('t, 'v table) io" where
  "run_defaults W t = run W [] ''0.0.0.0'' 8080 ''gpt2'' 60 t"

section \<open>The context-aware pipeline\<close>

definition DocumentInputSchema :: schema where
  "DocumentInputSchema = [(''doc'', PyStr)]"

definition QueryInputSchema_s3 :: schema where
  "QueryInputSchema_s3 = [(''query'', PyStr), (''user'', PyStr)]"

text \<open>Modelled from the spec: the class \<^verbatim>\<open>Config\<close> of \<^verbatim>\<open>llm_app.config\<close>, as the
  record of the fields that \<^verbatim>\<open>run\<close> reads: the API key, the model identifiers, the
  temperature and maximal token count of the chat model, the embedding dimension, and the
  address of the REST endpoint.\<close>

record 't Config =
  api_key :: string
  embedder_locator :: string
  embedding_dimension :: int
  rest_host :: string
  rest_port :: int
  model_locator :: string
  temperature :: 't
  max_tokens :: int

text \<open>Python's \<^verbatim>\<open>sep.join(xs)\<close>.\<close>

fun join :: "string \<Rightarrow> string list \<Rightarrow> string" where
  "join sep [] = []"
| "join sep [x] = x"
| "join sep (x # y # ys) = x @ sep @ join sep (y # ys)"

definition build_prompt :: "string list \<Rightarrow> string \<Rightarrow> string" where
  "build_prompt documents query =
     (let docs_str = join ''\<newline>'' documents;
          prompt = ''Given the following documents : \<newline> '' @ docs_str
                   @ '' \<newline>answer this query: '' @ query
      in prompt)"

text \<open>\<^verbatim>\<open>build_prompt\<close> under \<^verbatim>\<open>@pw.udf\<close>: applied to two column expressions. The
  pipeline gives it a tuple of strings and a string; on arguments of another type, which
  the pipeline never produces, the expression is a type error.\<close>

definition build_prompt_udf :: "('t, 'v) expr \<Rightarrow> ('t, 'v) expr \<Rightarrow> ('t, 'v) expr" where
  "build_prompt_udf documents query i r =
     io_bind (documents i r) (\<lambda>d.
     io_bind (query i r) (\<lambda>q.
       case (d, q) of
         (Tuple ds, Str s) \<Rightarrow> io_return (Str (build_prompt ds s))
       | _ \<Rightarrow> io_raise TypeError))"

text \<open>The stages of \<^verbatim>\<open>run\<close> of \<^verbatim>\<open>llm_app/pathway_pipelines/contextful_s3/app.py\<close>, one
  per local variable, and \<open>run_s3\<close> itself.\<close>

definition enriched_documents :: "('t, 'v) world \<Rightarrow> 't Config \<Rightarrow> 'v table \<Rightarrow> ('t, 'v table) io" where
  "enriched_documents W config documents =
     io_bind (select
                [(''data'', OpenAIEmbeddingModel_apply W (api_key config) (this_col ''doc'')
                              (embedder_locator config))]
                documents) (\<lambda>embedded.
     table_add documents embedded)"

definition embedded_query :: "('t, 'v) world \<Rightarrow> 't Config \<Rightarrow> 'v table \<Rightarrow> ('t, 'v table) io" where
  "embedded_query W config query =
     io_bind (select
                [(''data'', OpenAIEmbeddingModel_apply W (api_key config) (this_col ''query'')
                              (embedder_locator config))]
                query) (\<lambda>embedded.
     table_add query embedded)"

definition query_context ::
  "('t, 'v) world \<Rightarrow> 'v table \<times> int \<Rightarrow> 'v table \<Rightarrow> ('t, 'v table) io" where
  "query_context W index query =
     io_bind (index_query W index query 3) (\<lambda>found.
     select [(''query'', this_col ''query''), (''documents_list'', this_col ''result'')] found)"

definition prompt :: "'v table \<Rightarrow> ('t, 'v table) io" where
  "prompt context =
     select
       [(''prompt'', build_prompt_udf (this_col ''documents_list'') (this_col ''query''))]
       context"

definition responses :: "('t, 'v) world \<Rightarrow> 't Config \<Rightarrow> 'v table \<Rightarrow> ('t, 'v table) io" where
  "responses W config prompts =
     select
       [(''query_id'', this_id),
        (''result'', OpenAIChatGPTModel_apply W (api_key config) (this_col ''prompt'')
                       (model_locator config) (temperature config) (max_tokens config))]
       prompts"

definition run_s3 :: "('t, 'v) world \<Rightarrow> 't Config \<Rightarrow> ('t, 'v table) io" where
  "run_s3 W config =
     io_bind (s3_read W ''llm_demo/data/'' ''pathway-examples'' ''eu-central-1'' ''json''
                DocumentInputSchema ''streaming'') (\<lambda>documents.
     io_bind (enriched_documents W config documents) (\<lambda>enriched.
     let index = KNNIndex enriched (embedding_dimension config) in
     io_bind (rest_connector W (rest_host config) (rest_port config) QueryInputSchema_s3 50)
       (\<lambda>query.
     io_bind (embedded_query W config query) (\<lambda>query.
     io_bind (query_context W index query) (\<lambda>context.
     io_bind (prompt context) (\<lambda>prompts.
     io_bind (responses W config prompts) (\<lambda>answers.
     io_return answers)))))))"

section \<open>Notions used to state the properties\<close>

definition chat_parameterized :: "string \<Rightarrow> 't \<Rightarrow> int \<Rightarrow> 't event \<Rightarrow> bool" where
  "chat_parameterized locator temp tokens ev =
     (case ev of
        ChatCompletion req \<Rightarrow>
          chat_locator req = locator \<and> chat_temperature req = temp \<and> chat_max_tokens req = tokens
      | _ \<Rightarrow> True)"

definition embedding_parameterized :: "string \<Rightarrow> 't event \<Rightarrow> bool" where
  "embedding_parameterized locator ev =
     (case ev of Embedding req \<Rightarrow> embed_locator req = locator | _ \<Rightarrow> True)"

text \<open>Whether the index lookup of a row with its embedding in \<^verbatim>\<open>data\<close> finds a document, and
  whether the lookup with \<open>k = 3\<close> for the embedding of a query row's text does.\<close>

definition lookup_finds :: "('t, 'v) world \<Rightarrow> 'v table \<times> int \<Rightarrow> nat \<Rightarrow> pointer \<times> 'v row \<Rightarrow> bool" where
  "lookup_finds W index k qr =
     (case map_of (snd qr) ''data'' of
        Some (Vec x) \<Rightarrow>
          (case nearest_neighbors W (snd index) k (fst index) x of
             Inl e \<Rightarrow> False
           | Inr found \<Rightarrow> found \<noteq> [])
      | _ \<Rightarrow> False)"

definition has_neighbour ::
  "('t, 'v) world \<Rightarrow> 't Config \<Rightarrow> 'v table \<Rightarrow> pointer \<times> 'v row \<Rightarrow> bool" where
  "has_neighbour W config enriched qr =
     (case map_of (snd qr) ''query'' of
        Some (Str q) \<Rightarrow>
          (case embedding W \<lparr>embed_api_key = api_key config, embed_text = q,
                               embed_locator = embedder_locator config\<rparr> of
             Inl e \<Rightarrow> False
           | Inr x \<Rightarrow>
               (case nearest_neighbors W (embedding_dimension config) 3 enriched x of
                  Inl e \<Rightarrow> False
                | Inr found \<Rightarrow> found \<noteq> []))
      | _ \<Rightarrow> False)"

text \<open>Two rows that agree on every column but \<^verbatim>\<open>user\<close>, and two computations that make
  the same calls and end alike, with related values.\<close>

definition same_but_user :: "'v row \<Rightarrow> 'v row \<Rightarrow> bool" where
  "same_but_user r r' \<longleftrightarrow> (\<forall>c. c \<noteq> ''user'' \<longrightarrow> map_of r c = map_of r' c)"

definition rel_io :: "('a \<Rightarrow> 'b \<Rightarrow> bool) \<Rightarrow> ('t, 'a) io \<Rightarrow> ('t, 'b) io \<Rightarrow> bool" where
  "rel_io R m m' \<longleftrightarrow> fst m = fst m' \<and> rel_sum (=) R (snd m) (snd m')"

section \<open>A small world to run the pipelines in\<close>

text \<open>Two documents in the bucket, one query on the endpoint, a provider that echoes the
  prompt and embeds a text as its length, and an index that returns the first \<open>k\<close>
  documents.\<close>

definition demo_world :: "(int, int list) world" where
  "demo_world =
     \<lparr>rest_requests = (\<lambda>c. Inr [(7, [(''query'', Str ''hi''), (''user'', Str ''ann'')])]),
      s3_objects = (\<lambda>c. Inr [(1, [(''doc'', Str ''a'')]), (2, [(''doc'', Str ''b'')])]),
      chat_completion = (\<lambda>req. Inr (chat_text req)),
      embedding = (\<lambda>req. Inr [int (length (embed_text req))]),
      nearest_neighbors = (\<lambda>d k data x.
        Inr (take k (map (\<lambda>(i, r). case map_of r ''doc'' of Some (Str s) \<Rightarrow> s | _ \<Rightarrow> []) data)))\<rparr>"

definition demo_config :: "int Config" where
  "demo_config =
     \<lparr>api_key = ''key'', embedder_locator = ''ada'', embedding_dimension = 1,
      rest_host = ''0.0.0.0'', rest_port = 8080, model_locator = ''gpt'', temperature = 0,
      max_tokens = 60\<rparr>"

text \<open>The same query sent by another user.\<close>

definition other_user :: "rest_call \<Rightarrow> exn + int list table" where
  "other_user = (\<lambda>c. Inr [(8, [(''query'', Str ''hi''), (''user'', Str ''bob'')])])"

text \<open>A world with four documents and two queries, the second with an empty text, for
  whose embedding the index finds nothing.\<close>

definition library_world :: "(int, int list) world" where
  "library_world =
     \<lparr>rest_requests = (\<lambda>c. Inr [(7, [(''query'', Str ''hi''), (''user'', Str ''ann'')]),
                                (9, [(''query'', Str []), (''user'', Str ''bob'')])]),
      s3_objects = (\<lambda>c. Inr [(1, [(''doc'', Str ''a'')]), (2, [(''doc'', Str ''b'')]),
                             (3, [(''doc'', Str ''c'')]), (4, [(''doc'', Str ''d'')])]),
      chat_completion = (\<lambda>req. Inr (chat_text req)),
      embedding = (\<lambda>req. Inr [int (length (embed_text req))]),
      nearest_neighbors = (\<lambda>d k data x.
        Inr (if x = [0] then []
             else take k (map (\<lambda>(i, r). case map_of r ''doc'' of Some (Str s) \<Rightarrow> s | _ \<Rightarrow> [])
                            data)))\<rparr>"

text \<open>The small world with an empty bucket.\<close>

definition empty_bucket_world :: "(int, int list) world" where
  "empty_bucket_world = demo_world\<lparr>s3_objects := (\<lambda>c. Inr [])\<rparr>"

section \<open>How computations, tables and expressions behave\<close>


subsection \<open>Computations that succeed\<close>

lemma io_bind_Inr:
  "io_bind m f = (l, Inr b) \<longleftrightarrow> (\<exists>l1 a l2. m = (l1, Inr a) \<and> f a = (l2, Inr b) \<and> l = l1 @ l2)"
  by (auto simp: io_bind_def split: prod.splits sum.splits)

lemma io_return_eq: "io_return a = (l, r) \<longleftrightarrow> l = [] \<and> r = Inr a"
  by (auto simp: io_return_def)

lemma io_raise_eq: "io_raise e = (l, r) \<longleftrightarrow> l = [] \<and> r = Inl e"
  by (auto simp: io_raise_def)

lemma external_eq: "external ev a = (l, r) \<longleftrightarrow> l = [ev] \<and> r = a"
  by (auto simp: external_def)

lemma this_col_Inr: "this_col c i r = (l, Inr v) \<longleftrightarrow> map_of r c = Some v \<and> l = []"
  by (auto simp: this_col_def io_return_eq io_raise_eq split: option.splits)

lemma this_id_eq: "this_id i r = (l, x) \<longleftrightarrow> l = [] \<and> x = Inr (Ptr i)"
  by (auto simp: this_id_def io_return_eq)

lemma chat_apply_Inr:
  "OpenAIChatGPTModel_apply W k (this_col c) loc temp mt i r = (l, Inr v) \<longleftrightarrow>
     (\<exists>q s. map_of r c = Some (Str q) \<and>
        chat_completion W \<lparr>chat_api_key = k, chat_text = q, chat_locator = loc,
                            chat_temperature = temp, chat_max_tokens = mt\<rparr> = Inr s \<and>
        v = Str s \<and>
        l = [ChatCompletion \<lparr>chat_api_key = k, chat_text = q, chat_locator = loc,
                            chat_temperature = temp, chat_max_tokens = mt\<rparr>])"
proof (cases "map_of r c")
  case None
  then show ?thesis
    by (simp add: OpenAIChatGPTModel_apply_def this_col_def io_bind_def io_raise_def)
next
  case (Some v0)
  show ?thesis
    by (cases v0)
      (auto simp: Some OpenAIChatGPTModel_apply_def this_col_def io_bind_def io_return_def
         io_raise_def external_def Let_def split: sum.splits)
qed

lemma embed_apply_Inr:
  "OpenAIEmbeddingModel_apply W k (this_col c) loc i r = (l, Inr v) \<longleftrightarrow>
     (\<exists>q x. map_of r c = Some (Str q) \<and>
        embedding W \<lparr>embed_api_key = k, embed_text = q, embed_locator = loc\<rparr> = Inr x \<and>
        v = Vec x \<and>
        l = [Embedding \<lparr>embed_api_key = k, embed_text = q, embed_locator = loc\<rparr>])"
proof (cases "map_of r c")
  case None
  then show ?thesis
    by (simp add: OpenAIEmbeddingModel_apply_def this_col_def io_bind_def io_raise_def)
next
  case (Some v0)
  show ?thesis
    by (cases v0)
      (auto simp: Some OpenAIEmbeddingModel_apply_def this_col_def io_bind_def io_return_def
         io_raise_def external_def Let_def split: sum.splits)
qed

lemma answer_row_Inr:
  "eval_columns
     [(''query_id'', this_id),
      (''result'', OpenAIChatGPTModel_apply W k (this_col c) loc temp mt)] i r = (l, Inr r') \<longleftrightarrow>
   (\<exists>q s. map_of r c = Some (Str q) \<and>
      chat_completion W \<lparr>chat_api_key = k, chat_text = q, chat_locator = loc,
                          chat_temperature = temp, chat_max_tokens = mt\<rparr> = Inr s \<and>
      r' = [(''query_id'', Ptr i), (''result'', Str s)] \<and>
      l = [ChatCompletion \<lparr>chat_api_key = k, chat_text = q, chat_locator = loc,
                          chat_temperature = temp, chat_max_tokens = mt\<rparr>])"
  apply (simp add: io_bind_Inr io_return_eq this_id_eq chat_apply_Inr)
  apply auto
  done


lemma select_rel:
  "select es t = (l, Inr t') \<Longrightarrow>
     list_all2 (\<lambda>(i, r) (j, r'). j = i \<and> (\<exists>l'. eval_columns es i r = (l', Inr r'))) t t'"
proof (induction t arbitrary: l t')
  case Nil
  then show ?case by (simp add: io_return_eq)
next
  case (Cons a t)
  obtain i r where a: "a = (i, r)" by (cases a)
  from Cons.prems obtain l1 r' l2 t'' where
    "eval_columns es i r = (l1, Inr r')" "select es t = (l2, Inr t'')" "t' = (i, r') # t''"
    by (auto simp: a io_bind_Inr io_return_eq)
  with Cons.IH show ?case by (auto simp: a)
qed

lemma answer_rel:
  assumes "select
     [(''query_id'', this_id),
      (''result'', OpenAIChatGPTModel_apply W k (this_col c) loc temp mt)] t = (l, Inr t')"
  shows "list_all2 (\<lambda>(i, r) (j, r'). j = i \<and> (\<exists>q s. map_of r c = Some (Str q) \<and>
      chat_completion W \<lparr>chat_api_key = k, chat_text = q, chat_locator = loc,
                          chat_temperature = temp, chat_max_tokens = mt\<rparr> = Inr s \<and>
      r' = [(''query_id'', Ptr i), (''result'', Str s)])) t t'"
  using select_rel [OF assms]
  by (rule list_all2_mono) (auto simp: answer_row_Inr simp del: eval_columns.simps)

lemma answer_log:
  assumes "select
     [(''query_id'', this_id),
      (''result'', OpenAIChatGPTModel_apply W k (this_col c) loc temp mt)] t = (l, Inr t')"
  shows "list_all2 (\<lambda>(i, r) ev. \<exists>q. map_of r c = Some (Str q) \<and>
      ev = ChatCompletion \<lparr>chat_api_key = k, chat_text = q, chat_locator = loc,
                          chat_temperature = temp, chat_max_tokens = mt\<rparr>) t l"
  using assms
proof (induction t arbitrary: l t')
  case Nil
  then show ?case by (simp add: io_return_eq)
next
  case (Cons a t)
  obtain i r where a: "a = (i, r)" by (cases a)
  from Cons.prems obtain l1 r' l2 t'' where
    *: "eval_columns
     [(''query_id'', this_id),
      (''result'', OpenAIChatGPTModel_apply W k (this_col c) loc temp mt)] i r = (l1, Inr r')"
    "select
     [(''query_id'', this_id),
      (''result'', OpenAIChatGPTModel_apply W k (this_col c) loc temp mt)] t = (l2, Inr t'')" "l = l1 @ l2"
    unfolding a select.simps io_bind_Inr io_return_eq by blast
  from *(1) obtain q where "map_of r c = Some (Str q)"
      "l1 = [ChatCompletion \<lparr>chat_api_key = k, chat_text = q, chat_locator = loc,
                          chat_temperature = temp, chat_max_tokens = mt\<rparr>]"
    unfolding answer_row_Inr by blast
  with Cons.IH [OF *(2)] *(3) show ?case by (auto simp: a)
qed

lemma run_Inr:
  assumes "run W k h p loc mt temp = (log, Inr resp)"
  shows "\<exists>qs l. rest_connector W h p QueryInputSchema 50 = ([RestConnector \<lparr>rc_host = h, rc_port = p, rc_schema = QueryInputSchema,
                rc_autocommit_duration_ms = 50\<rparr>], Inr qs) \<and>
     log = RestConnector \<lparr>rc_host = h, rc_port = p, rc_schema = QueryInputSchema,
                rc_autocommit_duration_ms = 50\<rparr> # l \<and>
     select
     [(''query_id'', this_id),
      (''result'', OpenAIChatGPTModel_apply W k (this_col ''query'') loc temp mt)] qs = (l, Inr resp)"
  using assms unfolding run_def io_bind_Inr io_return_eq
  by (auto simp: rest_connector_def Let_def external_eq)


subsection \<open>The external calls of a computation\<close>

lemma io_bind_events:
  assumes "\<forall>ev\<in>set (fst m). P ev" and "\<And>a. \<forall>ev\<in>set (fst (f a)). P ev"
  shows "\<forall>ev\<in>set (fst (io_bind m f)). P ev"
proof (cases m)
  case (Pair l x)
  show ?thesis
  proof (cases x)
    case (Inl e)
    with Pair assms(1) show ?thesis by (simp add: io_bind_def)
  next
    case (Inr a)
    with Pair assms(1) assms(2) [of a] show ?thesis
      by (cases "f a") (auto simp: io_bind_def)
  qed
qed

lemma io_return_events: "\<forall>ev\<in>set (fst (io_return a)). P ev"
  by (simp add: io_return_def)

lemma this_col_log: "fst (this_col c i r) = []"
  by (simp add: this_col_def io_return_def io_raise_def split: option.splits)

lemma this_col_events: "\<forall>ev\<in>set (fst (this_col c i r)). P ev"
  by (simp add: this_col_def io_return_def io_raise_def split: option.splits)

lemma this_id_events: "\<forall>ev\<in>set (fst (this_id i r)). P ev"
  by (simp add: this_id_def io_return_def)

lemma eval_columns_events:
  assumes "\<And>c e i r. (c, e) \<in> set es \<Longrightarrow> \<forall>ev\<in>set (fst (e i r)). P ev"
  shows "\<forall>ev\<in>set (fst (eval_columns es i r)). P ev"
  using assms
proof (induction es)
  case Nil
  show ?case by (simp add: io_return_def)
next
  case (Cons a es)
  obtain c e where a: "a = (c, e)" by (cases a)
  have tl: "\<forall>ev\<in>set (fst (eval_columns es i r)). P ev"
  proof (rule Cons.IH)
    fix c' e' i' r'
    assume "(c', e') \<in> set es"
    then show "\<forall>ev\<in>set (fst (e' i' r')). P ev"
      by (intro Cons.prems [of c' e']) simp
  qed
  have hd: "\<forall>ev\<in>set (fst (e i r)). P ev"
    using Cons.prems [of c e] by (simp add: a)
  show ?case
    unfolding a eval_columns.simps
    by (intro io_bind_events hd tl io_return_events)
qed

lemma select_events:
  assumes "\<And>c e i r. (c, e) \<in> set es \<Longrightarrow> \<forall>ev\<in>set (fst (e i r)). P ev"
  shows "\<forall>ev\<in>set (fst (select es t)). P ev"
proof (induction t)
  case Nil
  show ?case by (simp add: io_return_def)
next
  case (Cons a t)
  obtain i r where a: "a = (i, r)" by (cases a)
  show ?case
    unfolding a select.simps
    by (intro io_bind_events eval_columns_events assms Cons.IH io_return_events)
qed

lemma no_events: "(\<forall>ev\<in>set l. False) \<longleftrightarrow> l = []"
  by (cases l) auto


lemma select_pure:
  assumes "select es t = (l, x)" and "\<And>c e i r. (c, e) \<in> set es \<Longrightarrow> fst (e i r) = []"
  shows "l = []"
proof -
  have "\<forall>ev\<in>set (fst (select es t)). False"
    by (rule select_events) (simp add: assms(2))
  with assms(1) show ?thesis by (simp add: no_events)
qed



subsection \<open>The stages of the context-aware pipeline, when they succeed\<close>

lemma table_add_Inr:
  "table_add t1 t2 = (l, Inr t') \<longleftrightarrow>
     l = [] \<and> map fst t1 = map fst t2 \<and>
     \<not> list_ex (\<lambda>((i, r1), (j, r2)). list_ex (\<lambda>c. c \<in> set (map fst r2)) (map fst r1)) (zip t1 t2) \<and>
     t' = map (\<lambda>((i, r1), (j, r2)). (i, r1 @ r2)) (zip t1 t2)"
  by (auto simp: table_add_def io_return_eq io_raise_eq)

lemma embed_row_Inr:
  "eval_columns [(''data'', OpenAIEmbeddingModel_apply W k (this_col c) loc)] i r = (l, Inr r') \<longleftrightarrow>
   (\<exists>q x. map_of r c = Some (Str q) \<and>
      embedding W \<lparr>embed_api_key = k, embed_text = q, embed_locator = loc\<rparr> = Inr x \<and>
      r' = [(''data'', Vec x)] \<and>
      l = [Embedding \<lparr>embed_api_key = k, embed_text = q, embed_locator = loc\<rparr>])"
  apply (simp add: io_bind_Inr io_return_eq embed_apply_Inr)
  apply auto
  done

lemma embed_rel:
  assumes "select [(''data'', OpenAIEmbeddingModel_apply W k (this_col c) loc)] t = (l, Inr e)"
    and "table_add t e = (l', Inr t')"
  shows "list_all2 (\<lambda>(i, r) (j, r'). j = i \<and> (\<exists>q x. map_of r c = Some (Str q) \<and>
      embedding W \<lparr>embed_api_key = k, embed_text = q, embed_locator = loc\<rparr> = Inr x \<and>
      map_of r ''data'' = None \<and> r' = r @ [(''data'', Vec x)])) t t'"
proof -
  have rel: "list_all2 (\<lambda>(i, r) (j, r'). j = i \<and> (\<exists>q x. map_of r c = Some (Str q) \<and>
      embedding W \<lparr>embed_api_key = k, embed_text = q, embed_locator = loc\<rparr> = Inr x \<and>
      r' = [(''data'', Vec x)])) t e"
    using select_rel [OF assms(1)]
    by (rule list_all2_mono) (auto simp: embed_row_Inr simp del: eval_columns.simps)
  have t': "t' = map (\<lambda>((i, r1), (j, r2)). (i, r1 @ r2)) (zip t e)"
    and noclash: "\<not> list_ex (\<lambda>((i, r1), (j, r2)). list_ex (\<lambda>c. c \<in> set (map fst r2)) (map fst r1)) (zip t e)"
    using assms(2) by (simp_all add: table_add_Inr)
  from rel noclash show ?thesis unfolding t'
  proof (induction t e rule: list_all2_induct)
    case Nil
    then show ?case by simp
  next
    case (Cons x xs y ys)
    then show ?case
      by (fastforce simp: list_ex_iff map_of_eq_None_iff)
  qed
qed

lemma knn_lookup_Inr:
  "knn_lookup W index k i r = (l, Inr v) \<longleftrightarrow>
     (\<exists>x found. map_of r ''data'' = Some (Vec x) \<and>
        nearest_neighbors W (snd index) k (fst index) x = Inr found \<and>
        v = Tuple found \<and> l = [])"
proof (cases "map_of r ''data''")
  case None
  then show ?thesis
    by (simp add: knn_lookup_def this_col_def io_bind_def io_raise_def)
next
  case (Some v0)
  show ?thesis
    by (cases v0)
      (auto simp: Some knn_lookup_def this_col_def io_bind_def io_return_def io_raise_def
         split: sum.splits)
qed

lemma list_all2_filter:
  assumes "list_all2 R xs ys" and "\<And>x y. R x y \<Longrightarrow> P x = Q y"
  shows "list_all2 R (filter P xs) (filter Q ys)"
  using assms(1)
  by (induction xs ys rule: list_all2_induct) (auto dest: assms(2))

lemma index_query_rel:
  "index_query W index t k = (l, Inr t') \<Longrightarrow>
     l = [] \<and>
     list_all2 (\<lambda>(i, r) (j, r'). j = i \<and> (\<exists>x found. map_of r ''data'' = Some (Vec x) \<and>
        nearest_neighbors W (snd index) k (fst index) x = Inr found \<and> found \<noteq> [] \<and>
        r' = with_column ''result'' (Tuple found) r)) (filter (lookup_finds W index k) t) t'"
proof (induction t arbitrary: l t')
  case Nil
  then show ?case by (simp add: io_return_eq)
next
  case (Cons a t)
  obtain i r where a: "a = (i, r)" by (cases a)
  from Cons.prems obtain l1 v l2 t'' where
    *: "knn_lookup W index k i r = (l1, Inr v)" "index_query W index t k = (l2, Inr t'')"
    "t' = (if v = Tuple [] then t'' else (i, with_column ''result'' v r) # t'')" "l = l1 @ l2"
    by (auto simp: a io_bind_Inr io_return_eq)
  from *(1) obtain x found where
    v: "map_of r ''data'' = Some (Vec x)"
       "nearest_neighbors W (snd index) k (fst index) x = Inr found" "v = Tuple found" "l1 = []"
    unfolding knn_lookup_Inr by blast
  have finds: "lookup_finds W index k (i, r) \<longleftrightarrow> found \<noteq> []"
    by (simp add: lookup_finds_def v)
  from Cons.IH [OF *(2)] *(3,4) v finds show ?case
    by (auto simp: a)
qed

lemma map_of_with_column: "map_of (with_column c v r) c' = (if c' = c then Some v else map_of r c')"
proof -
  have "map_of (filter (\<lambda>(c', x). c' \<noteq> c) r) c' = (if c' = c then None else map_of r c')"
    by (induction r) auto
  then show ?thesis
    by (auto simp: with_column_def map_add_def split: option.splits)
qed

lemma context_row_Inr:
  "eval_columns [(''query'', this_col ''query''), (''documents_list'', this_col ''result'')] i r
     = (l, Inr r') \<longleftrightarrow>
   (\<exists>q d. map_of r ''query'' = Some q \<and> map_of r ''result'' = Some d \<and>
      r' = [(''query'', q), (''documents_list'', d)] \<and> l = [])"
  apply (simp add: io_bind_Inr io_return_eq this_col_Inr)
  apply auto
  done

lemma query_context_rel:
  assumes "query_context W index t = (l, Inr t')"
  shows "l = [] \<and> list_all2 (\<lambda>(i, r) (j, r'). j = i \<and> (\<exists>x found q. map_of r ''data'' = Some (Vec x) \<and>
        nearest_neighbors W (snd index) 3 (fst index) x = Inr found \<and> found \<noteq> [] \<and>
        map_of r ''query'' = Some q \<and>
        r' = [(''query'', q), (''documents_list'', Tuple found)])) (filter (lookup_finds W index 3) t) t'"
proof -
  from assms obtain l1 f l2 where
    *: "index_query W index t 3 = (l1, Inr f)"
    "select [(''query'', this_col ''query''), (''documents_list'', this_col ''result'')] f = (l2, Inr t')"
    "l = l1 @ l2"
    unfolding query_context_def io_bind_Inr by blast
  have l1: "l1 = []" and f: "list_all2 (\<lambda>(i, r) (j, r'). j = i \<and> (\<exists>x found. map_of r ''data'' = Some (Vec x) \<and>
        nearest_neighbors W (snd index) 3 (fst index) x = Inr found \<and> found \<noteq> [] \<and>
        r' = with_column ''result'' (Tuple found) r)) (filter (lookup_finds W index 3) t) f"
    using index_query_rel [OF *(1)] by simp_all
  have sel: "list_all2 (\<lambda>(i, r) (j, r'). j = i \<and> (\<exists>q d. map_of r ''query'' = Some q \<and> map_of r ''result'' = Some d \<and>
      r' = [(''query'', q), (''documents_list'', d)])) f t'"
    using select_rel [OF *(2)]
    by (rule list_all2_mono) (auto simp: context_row_Inr simp del: eval_columns.simps)
  have l2: "l2 = []"
    using *(2) by (rule select_pure) (auto simp: this_col_log)
  have "list_all2 (\<lambda>(i, r) (j, r'). j = i \<and> (\<exists>x found q. map_of r ''data'' = Some (Vec x) \<and>
        nearest_neighbors W (snd index) 3 (fst index) x = Inr found \<and> found \<noteq> [] \<and>
        map_of r ''query'' = Some q \<and>
        r' = [(''query'', q), (''documents_list'', Tuple found)])) (filter (lookup_finds W index 3) t) t'"
    using f sel
    by (rule list_all2_trans [rotated]) (auto simp: map_of_with_column)
  with l1 l2 *(3) show ?thesis by simp
qed

lemma prompt_row_Inr:
  "eval_columns [(''prompt'', build_prompt_udf (this_col ''documents_list'') (this_col ''query''))] i r
     = (l, Inr r') \<longleftrightarrow>
   (\<exists>ds q. map_of r ''documents_list'' = Some (Tuple ds) \<and> map_of r ''query'' = Some (Str q) \<and>
      r' = [(''prompt'', Str (build_prompt ds q))] \<and> l = [])"
proof -
  have "build_prompt_udf (this_col ''documents_list'') (this_col ''query'') i r = (l, Inr v) \<longleftrightarrow>
    (\<exists>ds q. map_of r ''documents_list'' = Some (Tuple ds) \<and> map_of r ''query'' = Some (Str q) \<and>
      v = Str (build_prompt ds q) \<and> l = [])" for v
  proof (cases "map_of r ''documents_list''")
    case None
    then show ?thesis
      by (simp add: build_prompt_udf_def this_col_def io_bind_def io_raise_def)
  next
    case d: (Some d)
    show ?thesis
    proof (cases "map_of r ''query''")
      case None
      then show ?thesis
        by (simp add: d build_prompt_udf_def this_col_def io_bind_def io_raise_def io_return_def)
    next
      case q: (Some q)
      show ?thesis
        by (cases d; cases q)
          (auto simp: d q build_prompt_udf_def this_col_def io_bind_def io_raise_def io_return_def)
    qed
  qed
  then show ?thesis
    apply (simp add: io_bind_Inr io_return_eq)
    apply auto
    done
qed

lemma prompt_rel:
  assumes "prompt t = (l, Inr t')"
  shows "l = [] \<and> list_all2 (\<lambda>(i, r) (j, r'). j = i \<and>
    (\<exists>ds q. map_of r ''documents_list'' = Some (Tuple ds) \<and> map_of r ''query'' = Some (Str q) \<and>
      r' = [(''prompt'', Str (build_prompt ds q))])) t t'"
proof -
  have sel: "select [(''prompt'', build_prompt_udf (this_col ''documents_list'') (this_col ''query''))] t
    = (l, Inr t')"
    using assms by (simp add: prompt_def)
  have "list_all2 (\<lambda>(i, r) (j, r'). j = i \<and>
    (\<exists>ds q. map_of r ''documents_list'' = Some (Tuple ds) \<and> map_of r ''query'' = Some (Str q) \<and>
      r' = [(''prompt'', Str (build_prompt ds q))])) t t'"
    using select_rel [OF sel]
    by (rule list_all2_mono) (auto simp: prompt_row_Inr simp del: eval_columns.simps)
  moreover have "\<forall>ev\<in>set (fst (build_prompt_udf (this_col ''documents_list'') (this_col ''query'') i r :: ('a, 'b val) io)). False" for i r
    unfolding build_prompt_udf_def
    by (intro io_bind_events this_col_events) (auto simp: io_return_def io_raise_def split: val.splits)
  then have "l = []"
    using sel by (intro select_pure [OF sel]) (auto simp: no_events)
  ultimately show ?thesis by simp
qed

lemma embedded_query_rel:
  fixes W :: "('t, 'v) world"
  assumes "embedded_query W config t = (l, Inr t')"
  shows "list_all2 (\<lambda>(i, r) (j, r'). j = i \<and> (\<exists>q x. map_of r ''query'' = Some (Str q) \<and>
      embedding W \<lparr>embed_api_key = api_key config, embed_text = q,
                   embed_locator = embedder_locator config\<rparr> = Inr x \<and>
      map_of r ''data'' = None \<and> r' = r @ [(''data'', Vec x)])) t t'"
proof -
  from assms obtain l1 e l2 where
    "select [(''data'', OpenAIEmbeddingModel_apply W (api_key config) (this_col ''query'')
                              (embedder_locator config))] t = (l1, Inr e)"
    "table_add t e = (l2 :: 't event list, Inr t')"
    unfolding embedded_query_def io_bind_Inr by blast
  then show ?thesis by (rule embed_rel)
qed


lemma responses_rel:
  assumes "responses W config t = (l, Inr t')"
  shows "list_all2 (\<lambda>(i, r) (j, r'). j = i \<and> (\<exists>q s. map_of r ''prompt'' = Some (Str q) \<and>
      chat_completion W \<lparr>chat_api_key = api_key config, chat_text = q,
                          chat_locator = model_locator config,
                          chat_temperature = temperature config,
                          chat_max_tokens = max_tokens config\<rparr> = Inr s \<and>
      r' = [(''query_id'', Ptr i), (''result'', Str s)])) t t'"
  using assms unfolding responses_def by (rule answer_rel)

lemma has_neighbour_embedded:
  assumes "map_of r ''query'' = Some (Str q)"
    and "embedding W \<lparr>embed_api_key = api_key config, embed_text = q,
                   embed_locator = embedder_locator config\<rparr> = Inr x"
    and "map_of r ''data'' = None"
  shows "has_neighbour W config enriched (i, r) =
     lookup_finds W (KNNIndex enriched (embedding_dimension config)) 3 (i, r @ [(''data'', Vec x)])"
  using assms by (simp add: has_neighbour_def lookup_finds_def KNNIndex_def map_add_def)

lemma run_s3_Inr:
  fixes W :: "('t, 'v) world"
  assumes "run_s3 W config = (log, Inr resp)"
  shows "\<exists>docs l enriched qs.
    s3_objects W \<lparr>s3_path = ''llm_demo/data/'', s3_bucket_name = ''pathway-examples'',
      s3_region = ''eu-central-1'', s3_format = ''json'', s3_schema = DocumentInputSchema,
      s3_mode = ''streaming''\<rparr> = Inr docs \<and>
    enriched_documents W config docs = (l, Inr enriched) \<and>
    rest_requests W \<lparr>rc_host = rest_host config, rc_port = rest_port config,
      rc_schema = QueryInputSchema_s3, rc_autocommit_duration_ms = 50\<rparr> = Inr qs \<and>
    list_all2 (\<lambda>(i, r) (j, r'). j = i \<and> (\<exists>q x found s.
      map_of r ''query'' = Some (Str q) \<and>
      embedding W \<lparr>embed_api_key = api_key config, embed_text = q,
                   embed_locator = embedder_locator config\<rparr> = Inr x \<and>
      nearest_neighbors W (embedding_dimension config) 3 enriched x = Inr found \<and>
      found \<noteq> [] \<and>
      chat_completion W \<lparr>chat_api_key = api_key config, chat_text = build_prompt found q,
                          chat_locator = model_locator config,
                          chat_temperature = temperature config,
                          chat_max_tokens = max_tokens config\<rparr> = Inr s \<and>
      r' = [(''query_id'', Ptr i), (''result'', Str s)]))
      (filter (has_neighbour W config enriched) qs) resp"
proof -
  from assms obtain l1 docs l2 enriched l3 qs l4 eq l5 ctx l6 ps l7 where
    s3: "s3_read W ''llm_demo/data/'' ''pathway-examples'' ''eu-central-1'' ''json''
                DocumentInputSchema ''streaming'' = (l1, Inr docs)"
    and en: "enriched_documents W config docs = (l2, Inr enriched)"
    and rc: "rest_connector W (rest_host config) (rest_port config) QueryInputSchema_s3 50 = (l3, Inr qs)"
    and eq: "embedded_query W config qs = (l4, Inr eq)"
    and ctx: "query_context W (KNNIndex enriched (embedding_dimension config)) eq = (l5, Inr ctx)"
    and ps: "prompt ctx = (l6 :: 't event list, Inr ps)"
    and rs: "responses W config ps = (l7, Inr resp)"
    unfolding run_s3_def Let_def io_bind_Inr io_return_eq by blast
  have 1: "s3_objects W \<lparr>s3_path = ''llm_demo/data/'', s3_bucket_name = ''pathway-examples'',
      s3_region = ''eu-central-1'', s3_format = ''json'', s3_schema = DocumentInputSchema,
      s3_mode = ''streaming''\<rparr> = Inr docs"
    using s3 by (simp add: s3_read_def Let_def external_eq)
  have 2: "rest_requests W \<lparr>rc_host = rest_host config, rc_port = rest_port config,
      rc_schema = QueryInputSchema_s3, rc_autocommit_duration_ms = 50\<rparr> = Inr qs"
    using rc by (simp add: rest_connector_def Let_def external_eq)
  have kept: "list_all2 (\<lambda>(i, r) (j, r'). j = i \<and> (\<exists>q x. map_of r ''query'' = Some (Str q) \<and>
      embedding W \<lparr>embed_api_key = api_key config, embed_text = q,
                   embed_locator = embedder_locator config\<rparr> = Inr x \<and>
      map_of r ''data'' = None \<and> r' = r @ [(''data'', Vec x)]))
      (filter (has_neighbour W config enriched) qs)
      (filter (lookup_finds W (KNNIndex enriched (embedding_dimension config)) 3) eq)"
    using embedded_query_rel [OF eq]
    by (rule list_all2_filter) (auto simp: has_neighbour_embedded)
  have a: "list_all2 (\<lambda>(i, r) (j, r'). j = i \<and> (\<exists>q x found.
      map_of r ''query'' = Some (Str q) \<and>
      embedding W \<lparr>embed_api_key = api_key config, embed_text = q,
                   embed_locator = embedder_locator config\<rparr> = Inr x \<and>
      nearest_neighbors W (embedding_dimension config) 3 enriched x = Inr found \<and>
      found \<noteq> [] \<and>
      r' = [(''query'', Str q), (''documents_list'', Tuple found)]))
      (filter (has_neighbour W config enriched) qs) ctx"
    using kept conjunct2 [OF query_context_rel [OF ctx]]
    by (rule list_all2_trans [rotated]) (auto simp: KNNIndex_def)
  have b: "list_all2 (\<lambda>(i, r) (j, r'). j = i \<and> (\<exists>q x found.
      map_of r ''query'' = Some (Str q) \<and>
      embedding W \<lparr>embed_api_key = api_key config, embed_text = q,
                   embed_locator = embedder_locator config\<rparr> = Inr x \<and>
      nearest_neighbors W (embedding_dimension config) 3 enriched x = Inr found \<and>
      found \<noteq> [] \<and>
      r' = [(''prompt'', Str (build_prompt found q))]))
      (filter (has_neighbour W config enriched) qs) ps"
    using a conjunct2 [OF prompt_rel [OF ps]]
    by (rule list_all2_trans [rotated]) auto
  have c: "list_all2 (\<lambda>(i, r) (j, r'). j = i \<and> (\<exists>q x found s.
      map_of r ''query'' = Some (Str q) \<and>
      embedding W \<lparr>embed_api_key = api_key config, embed_text = q,
                   embed_locator = embedder_locator config\<rparr> = Inr x \<and>
      nearest_neighbors W (embedding_dimension config) 3 enriched x = Inr found \<and>
      found \<noteq> [] \<and>
      chat_completion W \<lparr>chat_api_key = api_key config, chat_text = build_prompt found q,
                          chat_locator = model_locator config,
                          chat_temperature = temperature config,
                          chat_max_tokens = max_tokens config\<rparr> = Inr s \<and>
      r' = [(''query_id'', Ptr i), (''result'', Str s)]))
      (filter (has_neighbour W config enriched) qs) resp"
    using b responses_rel [OF rs]
    by (rule list_all2_trans [rotated]) auto
  from 1 en 2 c show ?thesis by blast
qed

subsection \<open>The external calls of the two pipelines\<close>

lemma chat_events:
  assumes "\<And>i r. \<forall>ev\<in>set (fst (text i r)). P ev"
    and "\<And>s. P (ChatCompletion \<lparr>chat_api_key = k, chat_text = s, chat_locator = loc,
                       chat_temperature = temp, chat_max_tokens = mt\<rparr>)"
  shows "\<forall>ev\<in>set (fst (OpenAIChatGPTModel_apply W k text loc temp mt i r)). P ev"
  unfolding OpenAIChatGPTModel_apply_def
  apply (rule io_bind_events [OF assms(1)])
  subgoal for v
    by (cases v)
      (auto simp: Let_def io_raise_def io_return_def io_bind_def external_def assms(2)
         split: sum.splits)
  done

lemma embed_events:
  assumes "\<And>i r. \<forall>ev\<in>set (fst (text i r)). P ev"
    and "\<And>s. P (Embedding \<lparr>embed_api_key = k, embed_text = s, embed_locator = loc\<rparr>)"
  shows "\<forall>ev\<in>set (fst (OpenAIEmbeddingModel_apply W k text loc i r)). P ev"
  unfolding OpenAIEmbeddingModel_apply_def
  apply (rule io_bind_events [OF assms(1)])
  subgoal for v
    by (cases v)
      (auto simp: Let_def io_raise_def io_return_def io_bind_def external_def assms(2)
         split: sum.splits)
  done

lemma table_add_log: "fst (table_add t1 t2) = []"
  by (simp add: table_add_def io_raise_def io_return_def)

lemma knn_lookup_log: "fst (knn_lookup W index k i r) = []"
  by (cases "map_of r ''data''")
    (auto simp: knn_lookup_def this_col_def io_bind_def io_raise_def io_return_def
       split: val.splits sum.splits)

lemma index_query_events: "\<forall>ev\<in>set (fst (index_query W index t k)). P ev"
proof (induction t)
  case Nil
  show ?case by (simp add: io_return_def)
next
  case (Cons a t)
  obtain i r where a: "a = (i, r)" by (cases a)
  show ?case
    unfolding a index_query.simps
    by (intro io_bind_events Cons.IH io_return_events) (simp add: knn_lookup_log)
qed

lemma build_prompt_udf_events:
  assumes "\<And>i r. \<forall>ev\<in>set (fst (d i r)). P ev" "\<And>i r. \<forall>ev\<in>set (fst (q i r)). P ev"
  shows "\<forall>ev\<in>set (fst (build_prompt_udf d q i r)). P ev"
  unfolding build_prompt_udf_def
  by (intro io_bind_events assms)
    (auto simp: io_return_def io_raise_def split: val.splits)

lemma select_events1:
  assumes "\<And>i r. \<forall>ev\<in>set (fst (e i r)). P ev"
  shows "\<forall>ev\<in>set (fst (select [(c, e)] t)). P ev"
  by (rule select_events) (simp add: assms)

lemma select_events2:
  assumes "\<And>i r. \<forall>ev\<in>set (fst (e i r)). P ev" "\<And>i r. \<forall>ev\<in>set (fst (e' i r)). P ev"
  shows "\<forall>ev\<in>set (fst (select [(c, e), (c', e')] t)). P ev"
  by (rule select_events) (auto simp: assms)

lemma rest_connector_events:
  assumes "P (RestConnector \<lparr>rc_host = h, rc_port = p, rc_schema = s,
                rc_autocommit_duration_ms = a\<rparr>)"
  shows "\<forall>ev\<in>set (fst (rest_connector W h p s a)). P ev"
  by (simp add: rest_connector_def Let_def external_def assms)

lemma s3_read_events:
  assumes "P (S3Read \<lparr>s3_path = a, s3_bucket_name = b, s3_region = c, s3_format = d,
                s3_schema = e, s3_mode = f\<rparr>)"
  shows "\<forall>ev\<in>set (fst (s3_read W a b c d e f)). P ev"
  by (simp add: s3_read_def Let_def external_def assms)

lemma table_add_events: "\<forall>ev\<in>set (fst (table_add t1 t2)). P ev"
  by (simp add: table_add_log)

lemma run_events:
  assumes "P (RestConnector \<lparr>rc_host = h, rc_port = p, rc_schema = QueryInputSchema,
                rc_autocommit_duration_ms = 50\<rparr>)"
    and "\<And>s. P (ChatCompletion \<lparr>chat_api_key = k, chat_text = s, chat_locator = loc,
                       chat_temperature = temp, chat_max_tokens = mt\<rparr>)"
  shows "\<forall>ev\<in>set (fst (run W k h p loc mt temp)). P ev"
  unfolding run_def
  by (intro io_bind_events select_events2 io_return_events rest_connector_events
        this_id_events chat_events this_col_events assms)

lemma run_s3_events:
  assumes "P (S3Read \<lparr>s3_path = ''llm_demo/data/'', s3_bucket_name = ''pathway-examples'',
      s3_region = ''eu-central-1'', s3_format = ''json'', s3_schema = DocumentInputSchema,
      s3_mode = ''streaming''\<rparr>)"
    and "P (RestConnector \<lparr>rc_host = rest_host config, rc_port = rest_port config,
      rc_schema = QueryInputSchema_s3, rc_autocommit_duration_ms = 50\<rparr>)"
    and "\<And>s. P (Embedding \<lparr>embed_api_key = api_key config, embed_text = s,
                   embed_locator = embedder_locator config\<rparr>)"
    and "\<And>s. P (ChatCompletion \<lparr>chat_api_key = api_key config, chat_text = s,
                          chat_locator = model_locator config,
                          chat_temperature = temperature config,
                          chat_max_tokens = max_tokens config\<rparr>)"
  shows "\<forall>ev\<in>set (fst (run_s3 W config)). P ev"
  unfolding run_s3_def Let_def enriched_documents_def embedded_query_def query_context_def
    prompt_def responses_def
  by (intro io_bind_events select_events1 select_events2 io_return_events index_query_events
        rest_connector_events s3_read_events table_add_events embed_events chat_events
        build_prompt_udf_events this_id_events this_col_events assms)




subsection \<open>Runs on related inputs\<close>

lemma rel_io_bind:
  assumes "rel_io R m m'" and "\<And>a a'. R a a' \<Longrightarrow> rel_io S (f a) (f' a')"
  shows "rel_io S (io_bind m f) (io_bind m' f')"
proof (cases m)
  case m: (Pair l x)
  obtain l' x' where m': "m' = (l', x')" by (cases m')
  from assms(1) have l: "l' = l" and x: "rel_sum (=) R x x'"
    by (simp_all add: rel_io_def m m')
  show ?thesis
  proof (cases x)
    case (Inl e)
    with x show ?thesis by (cases x') (simp_all add: rel_io_def io_bind_def m m' l)
  next
    case (Inr a)
    with x obtain a' where x': "x' = Inr a'" and "R a a'" by (cases x') auto
    with assms(2) [of a a'] show ?thesis
      by (cases "f a"; cases "f' a'") (simp add: rel_io_def io_bind_def m m' l Inr)
  qed
qed

lemma rel_io_return: "R a a' \<Longrightarrow> rel_io R (io_return a) (io_return a')"
  by (simp add: rel_io_def io_return_def)

lemma rel_io_refl: "(\<And>a. R a a) \<Longrightarrow> rel_io R m m"
  by (cases m; cases "snd m") (auto simp: rel_io_def)

lemma rel_io_eq: "m = m' \<Longrightarrow> rel_io (=) m m'"
  by (simp add: rel_io_refl)

lemma select_rel_io:
  assumes "list_all2 (\<lambda>(i, r) (j, r'). rel_io Q (eval_columns es i r) (eval_columns es j r')) t t'"
  shows "rel_io (list_all2 (\<lambda>(i, r) (j, r'). Q r r')) (select es t) (select es t')"
  using assms
proof (induction t t' rule: list_all2_induct)
  case Nil
  show ?case by (simp add: rel_io_return)
next
  case (Cons x xs y ys)
  obtain i r where x: "x = (i, r)" by (cases x)
  obtain j r' where y: "y = (j, r')" by (cases y)
  from Cons.hyps(1) have hd: "rel_io Q (eval_columns es i r) (eval_columns es j r')"
    by (simp add: x y)
  show ?case
    unfolding x y select.simps
    by (intro rel_io_bind [OF hd] rel_io_bind [OF Cons.IH] rel_io_return) simp
qed

lemma select_ids: "select es t = (l, Inr t') \<Longrightarrow> map fst t' = map fst t"
proof (induction t arbitrary: l t')
  case Nil
  then show ?case by (simp add: io_return_eq)
next
  case (Cons a t)
  obtain i r where a: "a = (i, r)" by (cases a)
  from Cons.prems obtain l1 r' l2 t'' where
    "select es t = (l2, Inr t'')" "t' = (i, r') # t''"
    by (auto simp: a io_bind_Inr io_return_eq)
  with Cons.IH show ?case by (auto simp: a)
qed

lemma embed_apply_cong:
  "map_of r c = map_of r' c \<Longrightarrow>
     OpenAIEmbeddingModel_apply W k (this_col c) loc i r =
     OpenAIEmbeddingModel_apply W k (this_col c) loc j r'"
  by (simp add: OpenAIEmbeddingModel_apply_def this_col_def)

lemma chat_apply_cong:
  "map_of r c = map_of r' c \<Longrightarrow>
     OpenAIChatGPTModel_apply W k (this_col c) loc temp mt i r =
     OpenAIChatGPTModel_apply W k (this_col c) loc temp mt j r'"
  by (simp add: OpenAIChatGPTModel_apply_def this_col_def)

lemma same_but_userD: "same_but_user r r' \<Longrightarrow> c \<noteq> ''user'' \<Longrightarrow> map_of r c = map_of r' c"
  by (simp add: same_but_user_def)

lemma embed_row_cong:
  assumes "same_but_user r r'" "c \<noteq> ''user''"
  shows "eval_columns [(''data'', OpenAIEmbeddingModel_apply W k (this_col c) loc)] i r =
     eval_columns [(''data'', OpenAIEmbeddingModel_apply W k (this_col c) loc)] j r'"
  using embed_apply_cong [OF same_but_userD [OF assms], of W k loc i j] by simp


lemma clash_data:
  assumes "same_but_user r r'" "map fst d = [''data'']"
  shows "list_ex (\<lambda>c. c \<in> set (map fst d)) (map fst r) \<longleftrightarrow>
         list_ex (\<lambda>c. c \<in> set (map fst d)) (map fst r')"
proof -
  have "map_of r ''data'' = map_of r' ''data''"
    using assms(1) by (simp add: same_but_user_def)
  then have "(map_of r ''data'' = None) = (map_of r' ''data'' = None)"
    by simp
  then have "''data'' \<in> fst ` set r \<longleftrightarrow> ''data'' \<in> fst ` set r'"
    by (simp only: map_of_eq_None_iff) blast
  then show ?thesis
    by (simp add: list_ex_iff assms(2))
qed

lemma same_but_user_append:
  "same_but_user r r' \<Longrightarrow> same_but_user (r @ d) (r' @ d)"
  by (simp add: same_but_user_def map_add_def)

lemma add_data_rel:
  assumes "list_all2 (\<lambda>(i, r) (j, r'). same_but_user r r') t t'"
    and "list_all2 (\<lambda>(i, r) (j, r'). r = r') e e'"
    and "list_all (\<lambda>(i, r). map fst r = [''data'']) e"
  shows "(list_ex (\<lambda>((i, r1), (j, r2)). list_ex (\<lambda>c. c \<in> set (map fst r2)) (map fst r1)) (zip t e)
      \<longleftrightarrow> list_ex (\<lambda>((i, r1), (j, r2)). list_ex (\<lambda>c. c \<in> set (map fst r2)) (map fst r1)) (zip t' e'))
    \<and> list_all2 (\<lambda>(i, r) (j, r'). same_but_user r r')
        (map (\<lambda>((i, r1), (j, r2)). (i, r1 @ r2)) (zip t e))
        (map (\<lambda>((i, r1), (j, r2)). (i, r1 @ r2)) (zip t' e'))"
  using assms
proof (induction t t' arbitrary: e e' rule: list_all2_induct)
  case Nil
  show ?case by simp
next
  case (Cons a as b bs)
  show ?case
  proof (cases e)
    case Nil
    with Cons.prems(1) have "e' = []" by simp
    with Nil show ?thesis by simp
  next
    case e: (Cons d ds)
    with Cons.prems(1) obtain d' ds' where e': "e' = d' # ds'"
      and dd: "snd d' = snd d" and ds: "list_all2 (\<lambda>(i, r) (j, r'). r = r') ds ds'"
      by (cases e') auto
    have cols: "map fst (snd d) = [''data'']" "list_all (\<lambda>(i, r). map fst r = [''data'']) ds"
      using Cons.prems(2) by (auto simp: e)
    have ab: "same_but_user (snd a) (snd b)"
      using Cons.hyps(1) by auto
    note IH = Cons.IH [OF ds cols(2)]
    have hd1: "list_ex (\<lambda>c. c \<in> set (map fst (snd d))) (map fst (snd a)) \<longleftrightarrow>
         list_ex (\<lambda>c. c \<in> set (map fst (snd d))) (map fst (snd b))"
      using ab cols(1) by (rule clash_data)
    have hd2: "same_but_user (snd a @ snd d) (snd b @ snd d)"
      using ab by (rule same_but_user_append)
    show ?thesis
      using IH hd1 hd2 dd
      by (simp add: e e' case_prod_unfold)
  qed
qed

lemma table_add_ids:
  "map fst t1 = map fst t2 \<Longrightarrow>
     table_add t1 t2 =
       (if list_ex (\<lambda>((i, r1), (j, r2)). list_ex (\<lambda>c. c \<in> set (map fst r2)) (map fst r1))
                (zip t1 t2)
        then io_raise ValueError
        else io_return (map (\<lambda>((i, r1), (j, r2)). (i, r1 @ r2)) (zip t1 t2)))"
  by (simp add: table_add_def)

lemma embed_add_rel_io:
  fixes W :: "('t, 'v) world"
  assumes T: "list_all2 (\<lambda>(i, r) (j, r'). same_but_user r r') t t'" and c: "c \<noteq> ''user''"
  shows "rel_io (list_all2 (\<lambda>(i, r) (j, r'). same_but_user r r'))
     (io_bind (select [(''data'', OpenAIEmbeddingModel_apply W k (this_col c) loc)] t)
        (\<lambda>e. table_add t e))
     (io_bind (select [(''data'', OpenAIEmbeddingModel_apply W k (this_col c) loc)] t')
        (\<lambda>e. table_add t' e) :: ('t, 'v table) io)"
proof -
  let ?es = "[(''data'', OpenAIEmbeddingModel_apply W k (this_col c) loc)]"
  have "list_all2 (\<lambda>(i, r) (j, r'). rel_io (=) (eval_columns ?es i r) (eval_columns ?es j r')) t t'"
    using T
    by (rule list_all2_mono)
      (auto intro!: rel_io_eq embed_row_cong c simp del: eval_columns.simps)
  then have sel: "rel_io (list_all2 (\<lambda>(i, r) (j, r'). r = r')) (select ?es t) (select ?es t')"
    by (rule select_rel_io)
  obtain l x where m: "select ?es t = (l, x)" by (cases "select ?es t")
  obtain l' x' where m': "select ?es t' = (l', x')" by (cases "select ?es t'")
  from sel have l: "l' = l" and x: "rel_sum (=) (list_all2 (\<lambda>(i, r) (j, r'). r = r')) x x'"
    by (simp_all add: rel_io_def m m')
  show ?thesis
  proof (cases x)
    case (Inl err)
    with x show ?thesis by (cases x') (simp_all add: rel_io_def io_bind_def m m' l)
  next
    case xe: (Inr e)
    with x obtain e' where xe': "x' = Inr e'" and ee': "list_all2 (\<lambda>(i, r) (j, r'). r = r') e e'"
      by (cases x') auto
    have ids: "map fst t = map fst e" "map fst t' = map fst e'"
      using m m' xe xe' by (auto dest: select_ids)
    have cols: "list_all (\<lambda>(i, r). map fst r = [''data'']) e"
      using select_rel [OF m [unfolded xe]]
      by (induction t e rule: list_all2_induct)
        (auto simp: embed_row_Inr simp del: eval_columns.simps)
    have "rel_io (list_all2 (\<lambda>(i, r) (j, r'). same_but_user r r'))
      (table_add t e :: ('t, 'v table) io) (table_add t' e')"
      using add_data_rel [OF T ee' cols]
      by (simp add: table_add_ids ids rel_io_def io_raise_def io_return_def)
    then show ?thesis
      by (auto simp: io_bind_def m m' l xe xe' rel_io_def split: prod.splits)
  qed
qed




lemma knn_lookup_cong:
  "same_but_user r r' \<Longrightarrow> knn_lookup W index k i r = knn_lookup W index k j r'"
proof -
  assume "same_but_user r r'"
  then have "map_of r ''data'' = map_of r' ''data''"
    by (simp add: same_but_user_def)
  then show ?thesis
    by (simp add: knn_lookup_def this_col_def)
qed

lemma same_but_user_with_column:
  "same_but_user r r' \<Longrightarrow> same_but_user (with_column c v r) (with_column c v r')"
  by (simp add: same_but_user_def map_of_with_column)

lemma index_query_rel_io:
  assumes "list_all2 (\<lambda>(i, r) (j, r'). same_but_user r r') t t'"
  shows "rel_io (list_all2 (\<lambda>(i, r) (j, r'). same_but_user r r'))
           (index_query W index t k) (index_query W index t' k)"
  using assms
proof (induction t t' rule: list_all2_induct)
  case Nil
  show ?case by (simp add: rel_io_return)
next
  case (Cons x xs y ys)
  obtain i r where x: "x = (i, r)" by (cases x)
  obtain j r' where y: "y = (j, r')" by (cases y)
  from Cons.hyps(1) have rr': "same_but_user r r'"
    by (simp add: x y)
  have hd: "rel_io (=) (knn_lookup W index k i r) (knn_lookup W index k j r')"
    by (rule rel_io_eq) (rule knn_lookup_cong [OF rr'])
  show ?case
    unfolding x y index_query.simps
    by (intro rel_io_bind [OF hd] rel_io_bind [OF Cons.IH] rel_io_return)
      (simp add: same_but_user_with_column [OF rr'])
qed

lemma context_row_cong:
  assumes "same_but_user r r'"
  shows "eval_columns [(''query'', this_col ''query''), (''documents_list'', this_col ''result'')] i r =
    (eval_columns [(''query'', this_col ''query''), (''documents_list'', this_col ''result'')] j r'
       :: ('t, 'v row) io)"
proof -
  have "map_of r ''query'' = map_of r' ''query''" "map_of r ''result'' = map_of r' ''result''"
    using assms by (simp_all add: same_but_user_def)
  then show ?thesis
    by (simp add: this_col_def)
qed

lemma context_select_rel_io:
  assumes "list_all2 (\<lambda>(i, r) (j, r'). same_but_user r r') a a'"
  shows "rel_io (list_all2 (\<lambda>(i, r) (j, r'). r = r'))
     (select [(''query'', this_col ''query''), (''documents_list'', this_col ''result'')] a
        :: ('t, 'v table) io)
     (select [(''query'', this_col ''query''), (''documents_list'', this_col ''result'')] a')"
proof (rule select_rel_io)
  show "list_all2 (\<lambda>(i, r) (j, r'). rel_io (=)
      (eval_columns [(''query'', this_col ''query''), (''documents_list'', this_col ''result'')] i r
         :: ('t, 'v row) io)
      (eval_columns [(''query'', this_col ''query''), (''documents_list'', this_col ''result'')] j r')) a a'"
    using assms
    by (rule list_all2_mono)
      (auto intro!: rel_io_eq context_row_cong simp del: eval_columns.simps)
qed

lemma query_context_rel_io:
  assumes "list_all2 (\<lambda>(i, r) (j, r'). same_but_user r r') t t'"
  shows "rel_io (list_all2 (\<lambda>(i, r) (j, r'). r = r'))
           (query_context W index t) (query_context W index t')"
  unfolding query_context_def
  by (rule rel_io_bind [OF index_query_rel_io [OF assms]]) (rule context_select_rel_io)

lemma prompt_row_id:
  "eval_columns [(''prompt'', build_prompt_udf (this_col c) (this_col c'))] i r =
   eval_columns [(''prompt'', build_prompt_udf (this_col c) (this_col c'))] j r"
  by (simp add: build_prompt_udf_def this_col_def)

lemma prompt_rel_io:
  assumes "list_all2 (\<lambda>(i, r) (j, r'). r = r') t t'"
  shows "rel_io (list_all2 (\<lambda>(i, r) (j, r'). r = r')) (prompt t :: ('t, 'v table) io) (prompt t')"
  unfolding prompt_def
proof (rule select_rel_io)
  show "list_all2 (\<lambda>(i, r) (j, r'). rel_io (=)
      (eval_columns [(''prompt'', build_prompt_udf (this_col ''documents_list'') (this_col ''query''))] i r
         :: ('t, 'v row) io)
      (eval_columns [(''prompt'', build_prompt_udf (this_col ''documents_list'') (this_col ''query''))] j r')) t t'"
    using assms
    by (rule list_all2_mono)
      (auto intro!: rel_io_eq prompt_row_id simp del: eval_columns.simps)
qed

lemma answer_row_rel_io:
  assumes "map_of r c = map_of r' c"
  shows "rel_io (\<lambda>a a'. map_of a ''result'' = map_of a' ''result'')
     (eval_columns [(''query_id'', this_id),
        (''result'', OpenAIChatGPTModel_apply W k (this_col c) loc temp mt)] i r)
     (eval_columns [(''query_id'', this_id),
        (''result'', OpenAIChatGPTModel_apply W k (this_col c) loc temp mt)] j r')"
proof -
  obtain l x where m: "OpenAIChatGPTModel_apply W k (this_col c) loc temp mt j r' = (l, x)"
    by (cases "OpenAIChatGPTModel_apply W k (this_col c) loc temp mt j r'")
  show ?thesis
    by (cases x)
      (simp_all add: chat_apply_cong [OF assms, of W k loc temp mt i j] m rel_io_def
         io_bind_def io_return_def this_id_def)
qed

lemma answer_rel_io:
  assumes "list_all2 (\<lambda>(i, r) (j, r'). map_of r c = map_of r' c) t t'"
  shows "rel_io (list_all2 (\<lambda>(i, r) (j, r'). map_of r ''result'' = map_of r' ''result''))
     (select [(''query_id'', this_id),
        (''result'', OpenAIChatGPTModel_apply W k (this_col c) loc temp mt)] t)
     (select [(''query_id'', this_id),
        (''result'', OpenAIChatGPTModel_apply W k (this_col c) loc temp mt)] t')"
  apply (rule select_rel_io)
  apply (rule list_all2_mono [OF assms])
  apply (auto intro!: answer_row_rel_io simp del: eval_columns.simps)
  done




lemma chat_apply_update:
  "OpenAIChatGPTModel_apply (W\<lparr>rest_requests := g\<rparr>) = OpenAIChatGPTModel_apply W"
  by (intro ext) (simp add: OpenAIChatGPTModel_apply_def cong: val.case_cong)

lemma embed_apply_update:
  "OpenAIEmbeddingModel_apply (W\<lparr>rest_requests := g\<rparr>) = OpenAIEmbeddingModel_apply W"
  by (intro ext) (simp add: OpenAIEmbeddingModel_apply_def cong: val.case_cong)

lemma index_query_update:
  "index_query (W\<lparr>rest_requests := g\<rparr>) index t k = index_query W index t k"
  by (induction t) (auto simp: knn_lookup_def cong: val.case_cong)

lemma s3_read_update:
  "s3_read (W\<lparr>rest_requests := g\<rparr>) = s3_read W"
  by (intro ext) (simp add: s3_read_def)

lemma rest_connector_rel_io:
  assumes "\<And>c. rel_sum (=) T (rest_requests W c) (g c)"
  shows "rel_io T (rest_connector W h p s a) (rest_connector (W\<lparr>rest_requests := g\<rparr>) h p s a)"
  by (simp add: rest_connector_def Let_def external_def rel_io_def assms)

lemma same_but_user_query:
  "list_all2 (\<lambda>(i, r) (j, r'). same_but_user r r') t t' \<Longrightarrow>
   list_all2 (\<lambda>(i, r) (j, r'). map_of r ''query'' = map_of r' ''query'') t t'"
  by (erule list_all2_mono) (auto simp: same_but_user_def)

lemma equal_rows_prompt:
  "list_all2 (\<lambda>(i, r) (j, r'). r = r') t t' \<Longrightarrow>
   list_all2 (\<lambda>(i, r) (j, r'). map_of r ''prompt'' = map_of r' ''prompt'') t t'"
  by (erule list_all2_mono) auto

lemma rel_io_bind_same:
  assumes "\<And>a. rel_io S (f a) (f' a)"
  shows "rel_io S (io_bind m f) (io_bind m f')"
  by (rule rel_io_bind [OF rel_io_eq [OF refl]]) (simp add: assms)

lemma run_user_blind:
  assumes "\<And>c. rel_sum (=) (list_all2 (\<lambda>(i, r) (j, r'). same_but_user r r'))
             (rest_requests W c) (g c)"
  shows "rel_io (list_all2 (\<lambda>(i, r) (j, r'). map_of r ''result'' = map_of r' ''result''))
           (run W k h p loc mt temp) (run (W\<lparr>rest_requests := g\<rparr>) k h p loc mt temp)"
  unfolding run_def chat_apply_update
  apply (rule rel_io_bind [OF rest_connector_rel_io [OF assms]])
  apply (rule rel_io_bind [OF answer_rel_io])
   apply (erule same_but_user_query)
  apply (erule rel_io_return)
  done

lemma run_s3_user_blind:
  assumes "\<And>c. rel_sum (=) (list_all2 (\<lambda>(i, r) (j, r'). same_but_user r r'))
             (rest_requests W c) (g c)"
  shows "rel_io (list_all2 (\<lambda>(i, r) (j, r'). map_of r ''result'' = map_of r' ''result''))
           (run_s3 W config) (run_s3 (W\<lparr>rest_requests := g\<rparr>) config)"
  unfolding run_s3_def Let_def enriched_documents_def embedded_query_def responses_def
    query_context_def chat_apply_update embed_apply_update index_query_update s3_read_update
  apply (rule rel_io_bind_same)
  apply (rule rel_io_bind_same)
  apply (rule rel_io_bind [OF rest_connector_rel_io [OF assms]])
  apply (rule rel_io_bind [OF embed_add_rel_io])
    apply assumption
   apply simp
  apply (rule rel_io_bind [OF query_context_rel_io [unfolded query_context_def]])
   apply assumption
  apply (rule rel_io_bind [OF prompt_rel_io])
   apply assumption
  apply (rule rel_io_bind [OF answer_rel_io])
   apply (erule equal_rows_prompt)
  apply (erule rel_io_return)
  done




subsection \<open>The pipelines in the small world\<close>

lemmas io_defs = io_bind_def io_return_def io_raise_def external_def Let_def this_id_def
  this_col_def OpenAIChatGPTModel_apply_def OpenAIEmbeddingModel_apply_def rest_connector_def
  s3_read_def table_add_def knn_lookup_def with_column_def KNNIndex_def build_prompt_udf_def
  build_prompt_def

lemma demo_run:
  "run demo_world ''key'' ''0.0.0.0'' 8080 ''gpt'' 60 0 =
     ([RestConnector \<lparr>rc_host = ''0.0.0.0'', rc_port = 8080, rc_schema = QueryInputSchema,
                      rc_autocommit_duration_ms = 50\<rparr>,
       ChatCompletion \<lparr>chat_api_key = ''key'', chat_text = ''hi'', chat_locator = ''gpt'',
                       chat_temperature = 0, chat_max_tokens = 60\<rparr>],
      Inr [(7, [(''query_id'', Ptr 7), (''result'', Str ''hi'')])])"
  by (simp add: run_def demo_world_def io_defs)

lemma demo_run_s3:
  "run_s3 demo_world demo_config =
     ([S3Read \<lparr>s3_path = ''llm_demo/data/'', s3_bucket_name = ''pathway-examples'',
          s3_region = ''eu-central-1'', s3_format = ''json'', s3_schema = DocumentInputSchema,
          s3_mode = ''streaming''\<rparr>,
       Embedding \<lparr>embed_api_key = ''key'', embed_text = ''a'', embed_locator = ''ada''\<rparr>,
       Embedding \<lparr>embed_api_key = ''key'', embed_text = ''b'', embed_locator = ''ada''\<rparr>,
       RestConnector \<lparr>rc_host = ''0.0.0.0'', rc_port = 8080, rc_schema = QueryInputSchema_s3,
          rc_autocommit_duration_ms = 50\<rparr>,
       Embedding \<lparr>embed_api_key = ''key'', embed_text = ''hi'', embed_locator = ''ada''\<rparr>,
       ChatCompletion \<lparr>chat_api_key = ''key'',
          chat_text = ''Given the following documents : \<newline> a\<newline>b \<newline>answer this query: hi'',
          chat_locator = ''gpt'', chat_temperature = 0, chat_max_tokens = 60\<rparr>],
      Inr [(7, [(''query_id'', Ptr 7),
                (''result'', Str ''Given the following documents : \<newline> a\<newline>b \<newline>answer this query: hi'')])])"
  by (simp add: run_s3_def enriched_documents_def embedded_query_def query_context_def
        prompt_def responses_def demo_world_def demo_config_def io_defs)


lemma library_run_s3:
  "run_s3 library_world demo_config =
     ([S3Read \<lparr>s3_path = ''llm_demo/data/'', s3_bucket_name = ''pathway-examples'',
          s3_region = ''eu-central-1'', s3_format = ''json'', s3_schema = DocumentInputSchema,
          s3_mode = ''streaming''\<rparr>,
       Embedding \<lparr>embed_api_key = ''key'', embed_text = ''a'', embed_locator = ''ada''\<rparr>,
       Embedding \<lparr>embed_api_key = ''key'', embed_text = ''b'', embed_locator = ''ada''\<rparr>,
       Embedding \<lparr>embed_api_key = ''key'', embed_text = ''c'', embed_locator = ''ada''\<rparr>,
       Embedding \<lparr>embed_api_key = ''key'', embed_text = ''d'', embed_locator = ''ada''\<rparr>,
       RestConnector \<lparr>rc_host = ''0.0.0.0'', rc_port = 8080, rc_schema = QueryInputSchema_s3,
          rc_autocommit_duration_ms = 50\<rparr>,
       Embedding \<lparr>embed_api_key = ''key'', embed_text = ''hi'', embed_locator = ''ada''\<rparr>,
       Embedding \<lparr>embed_api_key = ''key'', embed_text = [], embed_locator = ''ada''\<rparr>,
       ChatCompletion \<lparr>chat_api_key = ''key'',
          chat_text = ''Given the following documents : \<newline> a\<newline>b\<newline>c \<newline>answer this query: hi'',
          chat_locator = ''gpt'', chat_temperature = 0, chat_max_tokens = 60\<rparr>],
      Inr [(7, [(''query_id'', Ptr 7),
                (''result'', Str ''Given the following documents : \<newline> a\<newline>b\<newline>c \<newline>answer this query: hi'')])])"
  by (simp add: run_s3_def enriched_documents_def embedded_query_def query_context_def
        prompt_def responses_def library_world_def demo_config_def io_defs)

text \<open>With an empty bucket the query is embedded, finds no neighbour and is dropped: the
  response writer gets an empty table and no chat request is sent.\<close>

lemma empty_bucket_run_s3:
  "run_s3 empty_bucket_world demo_config =
     ([S3Read \<lparr>s3_path = ''llm_demo/data/'', s3_bucket_name = ''pathway-examples'',
          s3_region = ''eu-central-1'', s3_format = ''json'', s3_schema = DocumentInputSchema,
          s3_mode = ''streaming''\<rparr>,
       RestConnector \<lparr>rc_host = ''0.0.0.0'', rc_port = 8080, rc_schema = QueryInputSchema_s3,
          rc_autocommit_duration_ms = 50\<rparr>,
       Embedding \<lparr>embed_api_key = ''key'', embed_text = ''hi'', embed_locator = ''ada''\<rparr>],
      Inr [])"
  by (simp add: run_s3_def enriched_documents_def embedded_query_def query_context_def
        prompt_def responses_def empty_bucket_world_def demo_world_def demo_config_def io_defs)


text \<open>In the world with four documents the query with the empty text finds nothing; only
  the first query is answered.\<close>

lemma library_enriched:
  "enriched_documents library_world demo_config
     [(1, [(''doc'', Str ''a'')]), (2, [(''doc'', Str ''b'')]),
      (3, [(''doc'', Str ''c'')]), (4, [(''doc'', Str ''d'')])] =
   ([Embedding \<lparr>embed_api_key = ''key'', embed_text = ''a'', embed_locator = ''ada''\<rparr>,
     Embedding \<lparr>embed_api_key = ''key'', embed_text = ''b'', embed_locator = ''ada''\<rparr>,
     Embedding \<lparr>embed_api_key = ''key'', embed_text = ''c'', embed_locator = ''ada''\<rparr>,
     Embedding \<lparr>embed_api_key = ''key'', embed_text = ''d'', embed_locator = ''ada''\<rparr>],
    Inr [(1, [(''doc'', Str ''a''), (''data'', Vec [1])]),
         (2, [(''doc'', Str ''b''), (''data'', Vec [1])]),
         (3, [(''doc'', Str ''c''), (''data'', Vec [1])]),
         (4, [(''doc'', Str ''d''), (''data'', Vec [1])])])"
  by (simp add: enriched_documents_def library_world_def demo_config_def io_defs)

lemma library_answered:
  "filter (has_neighbour library_world demo_config
             [(1, [(''doc'', Str ''a''), (''data'', Vec [1])]),
              (2, [(''doc'', Str ''b''), (''data'', Vec [1])]),
              (3, [(''doc'', Str ''c''), (''data'', Vec [1])]),
              (4, [(''doc'', Str ''d''), (''data'', Vec [1])])])
     [(7, [(''query'', Str ''hi''), (''user'', Str ''ann'')]),
      (9, [(''query'', Str []), (''user'', Str ''bob'')])] =
   [(7, [(''query'', Str ''hi''), (''user'', Str ''ann'')])]"
  by (simp add: has_neighbour_def library_world_def demo_config_def)

section \<open>The claims\<close>

text \<open>What a successful run of either pipeline returns, row for row.\<close>

lemma run_rows:
  fixes W :: "('t, 'v) world"
  assumes "run W k h p loc mt temp = (log, Inr resp)"
  shows "\<exists>qs calls.
    rest_requests W \<lparr>rc_host = h, rc_port = p, rc_schema = QueryInputSchema,
      rc_autocommit_duration_ms = 50\<rparr> = Inr qs \<and>
    log = RestConnector \<lparr>rc_host = h, rc_port = p, rc_schema = QueryInputSchema,
      rc_autocommit_duration_ms = 50\<rparr> # calls \<and>
    list_all2 (\<lambda>(i, r) ev. \<exists>q. map_of r ''query'' = Some (Str q) \<and>
      ev = ChatCompletion \<lparr>chat_api_key = k, chat_text = q, chat_locator = loc,
             chat_temperature = temp, chat_max_tokens = mt\<rparr>) qs calls \<and>
    list_all2 (\<lambda>(i, r) (j, r'). j = i \<and> (\<exists>q s. map_of r ''query'' = Some (Str q) \<and>
      chat_completion W \<lparr>chat_api_key = k, chat_text = q, chat_locator = loc,
        chat_temperature = temp, chat_max_tokens = mt\<rparr> = Inr s \<and>
      r' = [(''query_id'', Ptr i), (''result'', Str s)])) qs resp"
proof -
  from run_Inr [OF assms] obtain qs calls where
    qs: "rest_connector W h p QueryInputSchema 50 =
       ([RestConnector \<lparr>rc_host = h, rc_port = p, rc_schema = QueryInputSchema,
                rc_autocommit_duration_ms = 50\<rparr>], Inr qs)"
    and log: "log = RestConnector \<lparr>rc_host = h, rc_port = p, rc_schema = QueryInputSchema,
                rc_autocommit_duration_ms = 50\<rparr> # calls"
    and sel: "select [(''query_id'', this_id),
        (''result'', OpenAIChatGPTModel_apply W k (this_col ''query'') loc temp mt)] qs
          = (calls, Inr resp)"
    by blast
  have "rest_requests W \<lparr>rc_host = h, rc_port = p, rc_schema = QueryInputSchema,
                rc_autocommit_duration_ms = 50\<rparr> = Inr qs"
    using qs by (simp add: rest_connector_def Let_def external_eq)
  with log answer_log [OF sel] answer_rel [OF sel] show ?thesis
    by blast
qed

lemma rows_keep_ids:
  "list_all2 (\<lambda>(i, r) (j, r'). j = i \<and> (\<exists>s. r' = [(''query_id'', Ptr i), (''result'', Str s)])) qs resp
   \<Longrightarrow> list_all2 (\<lambda>(i, r) (j, r'). j = i \<and> map_of r' ''query_id'' = Some (Ptr i)) qs resp"
  by (erule list_all2_mono) auto

lemma rows_two_columns:
  assumes "list_all2 (\<lambda>(i, r) (j, r'). j = i \<and> (\<exists>s. r' = [(''query_id'', Ptr i), (''result'', Str s)])) qs resp"
  shows "\<forall>(j, r')\<in>set resp. \<exists>s. r' = [(''query_id'', Ptr j), (''result'', Str s)]"
  using assms by (induction qs resp rule: list_all2_induct) auto

lemma run_answers:
  fixes W :: "('t, 'v) world"
  assumes "run W k h p loc mt temp = (log, Inr resp)"
  shows "\<exists>qs.
    rest_requests W \<lparr>rc_host = h, rc_port = p, rc_schema = QueryInputSchema,
      rc_autocommit_duration_ms = 50\<rparr> = Inr qs \<and>
    list_all2 (\<lambda>(i, r) (j, r'). j = i \<and> (\<exists>s. r' = [(''query_id'', Ptr i), (''result'', Str s)]))
      qs resp"
proof -
  from run_rows [OF assms] obtain qs where
    "rest_requests W \<lparr>rc_host = h, rc_port = p, rc_schema = QueryInputSchema,
      rc_autocommit_duration_ms = 50\<rparr> = Inr qs"
    and rel: "list_all2 (\<lambda>(i, r) (j, r'). j = i \<and> (\<exists>q s. map_of r ''query'' = Some (Str q) \<and>
      chat_completion W \<lparr>chat_api_key = k, chat_text = q, chat_locator = loc,
        chat_temperature = temp, chat_max_tokens = mt\<rparr> = Inr s \<and>
      r' = [(''query_id'', Ptr i), (''result'', Str s)])) qs resp"
    by blast
  moreover from rel have
    "list_all2 (\<lambda>(i, r) (j, r'). j = i \<and> (\<exists>s. r' = [(''query_id'', Ptr i), (''result'', Str s)]))
      qs resp"
    by (rule list_all2_mono) auto
  ultimately show ?thesis by blast
qed

lemma run_s3_answers:
  fixes W :: "('t, 'v) world"
  assumes "run_s3 W config = (log, Inr resp)"
  shows "\<exists>docs calls enriched qs.
    s3_objects W \<lparr>s3_path = ''llm_demo/data/'', s3_bucket_name = ''pathway-examples'',
      s3_region = ''eu-central-1'', s3_format = ''json'', s3_schema = DocumentInputSchema,
      s3_mode = ''streaming''\<rparr> = Inr docs \<and>
    enriched_documents W config docs = (calls, Inr enriched) \<and>
    rest_requests W \<lparr>rc_host = rest_host config, rc_port = rest_port config,
      rc_schema = QueryInputSchema_s3, rc_autocommit_duration_ms = 50\<rparr> = Inr qs \<and>
    list_all2 (\<lambda>(i, r) (j, r'). j = i \<and> (\<exists>s. r' = [(''query_id'', Ptr i), (''result'', Str s)]))
      (filter (has_neighbour W config enriched) qs) resp"
proof -
  from run_s3_Inr [OF assms] obtain docs calls enriched qs where
    1: "s3_objects W \<lparr>s3_path = ''llm_demo/data/'', s3_bucket_name = ''pathway-examples'',
      s3_region = ''eu-central-1'', s3_format = ''json'', s3_schema = DocumentInputSchema,
      s3_mode = ''streaming''\<rparr> = Inr docs"
    and 2: "enriched_documents W config docs = (calls, Inr enriched)"
    and 3: "rest_requests W \<lparr>rc_host = rest_host config, rc_port = rest_port config,
      rc_schema = QueryInputSchema_s3, rc_autocommit_duration_ms = 50\<rparr> = Inr qs"
    and rel: "list_all2 (\<lambda>(i, r) (j, r'). j = i \<and> (\<exists>q x found s.
      map_of r ''query'' = Some (Str q) \<and>
      embedding W \<lparr>embed_api_key = api_key config, embed_text = q,
                   embed_locator = embedder_locator config\<rparr> = Inr x \<and>
      nearest_neighbors W (embedding_dimension config) 3 enriched x = Inr found \<and>
      found \<noteq> [] \<and>
      chat_completion W \<lparr>chat_api_key = api_key config, chat_text = build_prompt found q,
                          chat_locator = model_locator config,
                          chat_temperature = temperature config,
                          chat_max_tokens = max_tokens config\<rparr> = Inr s \<and>
      r' = [(''query_id'', Ptr i), (''result'', Str s)]))
      (filter (has_neighbour W config enriched) qs) resp"
    by blast
  from rel have
    "list_all2 (\<lambda>(i, r) (j, r'). j = i \<and> (\<exists>s. r' = [(''query_id'', Ptr i), (''result'', Str s)]))
      (filter (has_neighbour W config enriched) qs) resp"
    by (rule list_all2_mono) auto
  with 1 2 3 show ?thesis by blast
qed

text \<open>
  \<^bold>\<open>C1.\<close> Whenever a pipeline hands a table of responses to the response writer, every
  response is keyed by the identifier the framework gave the query record it answers, and its
  \<^verbatim>\<open>query_id\<close> column holds that identifier. In the contextless pipeline the responses are,
  row for row, those of the query records the HTTP connector delivered. In the context-aware
  pipeline, through embedding, index lookup and prompt building, they are, in order, those
  of the delivered query records for which the index finds a neighbour; a query record
  without neighbour gets no response.
\<close>

theorem query_id_is_input_id:
  fixes W :: "('t, 'v) world"
  shows
  "(run W k h p loc mt temp = (log, Inr resp) \<longrightarrow>
      (\<exists>qs. rest_requests W \<lparr>rc_host = h, rc_port = p, rc_schema = QueryInputSchema,
                rc_autocommit_duration_ms = 50\<rparr> = Inr qs \<and>
         list_all2 (\<lambda>(i, r) (j, r'). j = i \<and> map_of r' ''query_id'' = Some (Ptr i)) qs resp)) \<and>
   (run_s3 W config = (log', Inr resp') \<longrightarrow>
      (\<exists>docs calls enriched qs.
         s3_objects W \<lparr>s3_path = ''llm_demo/data/'', s3_bucket_name = ''pathway-examples'',
           s3_region = ''eu-central-1'', s3_format = ''json'', s3_schema = DocumentInputSchema,
           s3_mode = ''streaming''\<rparr> = Inr docs \<and>
         enriched_documents W config docs = (calls, Inr enriched) \<and>
         rest_requests W \<lparr>rc_host = rest_host config, rc_port = rest_port config,
                rc_schema = QueryInputSchema_s3, rc_autocommit_duration_ms = 50\<rparr> = Inr qs \<and>
         list_all2 (\<lambda>(i, r) (j, r'). j = i \<and> map_of r' ''query_id'' = Some (Ptr i))
           (filter (has_neighbour W config enriched) qs) resp'))"
proof (intro conjI impI)
  assume "run W k h p loc mt temp = (log, Inr resp)"
  from run_answers [OF this]
  show "\<exists>qs. rest_requests W \<lparr>rc_host = h, rc_port = p, rc_schema = QueryInputSchema,
                rc_autocommit_duration_ms = 50\<rparr> = Inr qs \<and>
         list_all2 (\<lambda>(i, r) (j, r'). j = i \<and> map_of r' ''query_id'' = Some (Ptr i)) qs resp"
    by (blast intro: rows_keep_ids)
next
  assume "run_s3 W config = (log', Inr resp')"
  from run_s3_answers [OF this]
  show "\<exists>docs calls enriched qs.
         s3_objects W \<lparr>s3_path = ''llm_demo/data/'', s3_bucket_name = ''pathway-examples'',
           s3_region = ''eu-central-1'', s3_format = ''json'', s3_schema = DocumentInputSchema,
           s3_mode = ''streaming''\<rparr> = Inr docs \<and>
         enriched_documents W config docs = (calls, Inr enriched) \<and>
         rest_requests W \<lparr>rc_host = rest_host config, rc_port = rest_port config,
                rc_schema = QueryInputSchema_s3, rc_autocommit_duration_ms = 50\<rparr> = Inr qs \<and>
         list_all2 (\<lambda>(i, r) (j, r'). j = i \<and> map_of r' ''query_id'' = Some (Ptr i))
           (filter (has_neighbour W config enriched) qs) resp'"
    by (blast intro: rows_keep_ids)
qed

theorem query_id_is_input_id_witness:
  "run demo_world ''key'' ''0.0.0.0'' 8080 ''gpt'' 60 0 =
     ([RestConnector \<lparr>rc_host = ''0.0.0.0'', rc_port = 8080, rc_schema = QueryInputSchema,
                      rc_autocommit_duration_ms = 50\<rparr>,
       ChatCompletion \<lparr>chat_api_key = ''key'', chat_text = ''hi'', chat_locator = ''gpt'',
                       chat_temperature = 0, chat_max_tokens = 60\<rparr>],
      Inr [(7, [(''query_id'', Ptr 7), (''result'', Str ''hi'')])]) \<and>
   (\<exists>qs. rest_requests demo_world \<lparr>rc_host = ''0.0.0.0'', rc_port = 8080,
            rc_schema = QueryInputSchema, rc_autocommit_duration_ms = 50\<rparr> = Inr qs \<and>
      list_all2 (\<lambda>(i, r) (j, r'). j = i \<and> map_of r' ''query_id'' = Some (Ptr i)) qs
        ([(7, [(''query_id'', Ptr 7), (''result'', Str ''hi'')])] :: int list table)) \<and>
   snd (run_s3 library_world demo_config) =
     Inr [(7, [(''query_id'', Ptr 7),
               (''result'', Str ''Given the following documents : \<newline> a\<newline>b\<newline>c \<newline>answer this query: hi'')])] \<and>
   rest_requests library_world \<lparr>rc_host = rest_host demo_config,
       rc_port = rest_port demo_config, rc_schema = QueryInputSchema_s3,
       rc_autocommit_duration_ms = 50\<rparr>
     = Inr [(7, [(''query'', Str ''hi''), (''user'', Str ''ann'')]),
            (9, [(''query'', Str []), (''user'', Str ''bob'')])] \<and>
   (\<exists>docs calls enriched qs.
      s3_objects library_world \<lparr>s3_path = ''llm_demo/data/'',
        s3_bucket_name = ''pathway-examples'', s3_region = ''eu-central-1'',
        s3_format = ''json'', s3_schema = DocumentInputSchema,
        s3_mode = ''streaming''\<rparr> = Inr docs \<and>
      enriched_documents library_world demo_config docs = (calls, Inr enriched) \<and>
      rest_requests library_world \<lparr>rc_host = rest_host demo_config,
            rc_port = rest_port demo_config, rc_schema = QueryInputSchema_s3,
            rc_autocommit_duration_ms = 50\<rparr> = Inr qs \<and>
      list_all2 (\<lambda>(i, r) (j, r'). j = i \<and> map_of r' ''query_id'' = Some (Ptr i))
        (filter (has_neighbour library_world demo_config enriched) qs)
        ([(7, [(''query_id'', Ptr 7),
               (''result'', Str ''Given the following documents : \<newline> a\<newline>b\<newline>c \<newline>answer this query: hi'')])]
           :: int list table))"
proof (intro conjI)
  show "run demo_world ''key'' ''0.0.0.0'' 8080 ''gpt'' 60 0 =
     ([RestConnector \<lparr>rc_host = ''0.0.0.0'', rc_port = 8080, rc_schema = QueryInputSchema,
                      rc_autocommit_duration_ms = 50\<rparr>,
       ChatCompletion \<lparr>chat_api_key = ''key'', chat_text = ''hi'', chat_locator = ''gpt'',
                       chat_temperature = 0, chat_max_tokens = 60\<rparr>],
      Inr [(7, [(''query_id'', Ptr 7), (''result'', Str ''hi'')])])"
    by (rule demo_run)
  show "\<exists>qs. rest_requests demo_world \<lparr>rc_host = ''0.0.0.0'', rc_port = 8080,
            rc_schema = QueryInputSchema, rc_autocommit_duration_ms = 50\<rparr> = Inr qs \<and>
      list_all2 (\<lambda>(i, r) (j, r'). j = i \<and> map_of r' ''query_id'' = Some (Ptr i)) qs
        ([(7, [(''query_id'', Ptr 7), (''result'', Str ''hi'')])] :: int list table)"
    by (rule query_id_is_input_id [THEN conjunct1, THEN mp, OF demo_run])
  show "snd (run_s3 library_world demo_config) =
     Inr [(7, [(''query_id'', Ptr 7),
               (''result'', Str ''Given the following documents : \<newline> a\<newline>b\<newline>c \<newline>answer this query: hi'')])]"
    by (simp add: library_run_s3)
  show "rest_requests library_world \<lparr>rc_host = rest_host demo_config,
       rc_port = rest_port demo_config, rc_schema = QueryInputSchema_s3,
       rc_autocommit_duration_ms = 50\<rparr>
     = Inr [(7, [(''query'', Str ''hi''), (''user'', Str ''ann'')]),
            (9, [(''query'', Str []), (''user'', Str ''bob'')])]"
    by (simp add: library_world_def)
  show "\<exists>docs calls enriched qs.
      s3_objects library_world \<lparr>s3_path = ''llm_demo/data/'',
        s3_bucket_name = ''pathway-examples'', s3_region = ''eu-central-1'',
        s3_format = ''json'', s3_schema = DocumentInputSchema,
        s3_mode = ''streaming''\<rparr> = Inr docs \<and>
      enriched_documents library_world demo_config docs = (calls, Inr enriched) \<and>
      rest_requests library_world \<lparr>rc_host = rest_host demo_config,
            rc_port = rest_port demo_config, rc_schema = QueryInputSchema_s3,
            rc_autocommit_duration_ms = 50\<rparr> = Inr qs \<and>
      list_all2 (\<lambda>(i, r) (j, r'). j = i \<and> map_of r' ''query_id'' = Some (Ptr i))
        (filter (has_neighbour library_world demo_config enriched) qs)
        ([(7, [(''query_id'', Ptr 7),
               (''result'', Str ''Given the following documents : \<newline> a\<newline>b\<newline>c \<newline>answer this query: hi'')])]
           :: int list table)"
    by (rule query_id_is_input_id [THEN conjunct2, THEN mp, OF library_run_s3])
qed

text \<open>
  \<^bold>\<open>C2.\<close> In the contextless pipeline the \<^verbatim>\<open>result\<close> of every response is the chat
  model's reply to the \<^verbatim>\<open>query\<close> text of the record the HTTP connector delivered, asked
  with the arguments of \<^verbatim>\<open>run\<close>; between the two connectors the pipeline makes exactly
  one external call per query record, that chat request, and nothing else.
\<close>

theorem contextless_result_is_model_reply:
  fixes W :: "('t, 'v) world"
  assumes "run W k h p loc mt temp = (log, Inr resp)"
  shows "\<exists>qs calls.
    rest_requests W \<lparr>rc_host = h, rc_port = p, rc_schema = QueryInputSchema,
      rc_autocommit_duration_ms = 50\<rparr> = Inr qs \<and>
    log = RestConnector \<lparr>rc_host = h, rc_port = p, rc_schema = QueryInputSchema,
      rc_autocommit_duration_ms = 50\<rparr> # calls \<and>
    list_all2 (\<lambda>(i, r) ev. \<exists>q. map_of r ''query'' = Some (Str q) \<and>
      ev = ChatCompletion \<lparr>chat_api_key = k, chat_text = q, chat_locator = loc,
             chat_temperature = temp, chat_max_tokens = mt\<rparr>) qs calls \<and>
    list_all2 (\<lambda>(i, r) (j, r'). \<exists>q s. map_of r ''query'' = Some (Str q) \<and>
      chat_completion W \<lparr>chat_api_key = k, chat_text = q, chat_locator = loc,
        chat_temperature = temp, chat_max_tokens = mt\<rparr> = Inr s \<and>
      map_of r' ''result'' = Some (Str s)) qs resp"
proof -
  from run_rows [OF assms] obtain qs calls where
    1: "rest_requests W \<lparr>rc_host = h, rc_port = p, rc_schema = QueryInputSchema,
      rc_autocommit_duration_ms = 50\<rparr> = Inr qs"
    and 2: "log = RestConnector \<lparr>rc_host = h, rc_port = p, rc_schema = QueryInputSchema,
      rc_autocommit_duration_ms = 50\<rparr> # calls"
    and 3: "list_all2 (\<lambda>(i, r) ev. \<exists>q. map_of r ''query'' = Some (Str q) \<and>
      ev = ChatCompletion \<lparr>chat_api_key = k, chat_text = q, chat_locator = loc,
             chat_temperature = temp, chat_max_tokens = mt\<rparr>) qs calls"
    and 4: "list_all2 (\<lambda>(i, r) (j, r'). j = i \<and> (\<exists>q s. map_of r ''query'' = Some (Str q) \<and>
      chat_completion W \<lparr>chat_api_key = k, chat_text = q, chat_locator = loc,
        chat_temperature = temp, chat_max_tokens = mt\<rparr> = Inr s \<and>
      r' = [(''query_id'', Ptr i), (''result'', Str s)])) qs resp"
    by blast
  from 4 have "list_all2 (\<lambda>(i, r) (j, r'). \<exists>q s. map_of r ''query'' = Some (Str q) \<and>
      chat_completion W \<lparr>chat_api_key = k, chat_text = q, chat_locator = loc,
        chat_temperature = temp, chat_max_tokens = mt\<rparr> = Inr s \<and>
      map_of r' ''result'' = Some (Str s)) qs resp"
    by (rule list_all2_mono) auto
  with 1 2 3 show ?thesis by blast
qed

theorem contextless_result_is_model_reply_witness:
  "run demo_world ''key'' ''0.0.0.0'' 8080 ''gpt'' 60 0 =
     ([RestConnector \<lparr>rc_host = ''0.0.0.0'', rc_port = 8080, rc_schema = QueryInputSchema,
                      rc_autocommit_duration_ms = 50\<rparr>,
       ChatCompletion \<lparr>chat_api_key = ''key'', chat_text = ''hi'', chat_locator = ''gpt'',
                       chat_temperature = 0, chat_max_tokens = 60\<rparr>],
      Inr [(7, [(''query_id'', Ptr 7), (''result'', Str ''hi'')])]) \<and>
   (\<exists>qs calls.
    rest_requests demo_world \<lparr>rc_host = ''0.0.0.0'', rc_port = 8080,
      rc_schema = QueryInputSchema, rc_autocommit_duration_ms = 50\<rparr> = Inr qs \<and>
    [RestConnector \<lparr>rc_host = ''0.0.0.0'', rc_port = 8080, rc_schema = QueryInputSchema,
                      rc_autocommit_duration_ms = 50\<rparr>,
     ChatCompletion \<lparr>chat_api_key = ''key'', chat_text = ''hi'', chat_locator = ''gpt'',
                       chat_temperature = (0 :: int), chat_max_tokens = 60\<rparr>]
      = RestConnector \<lparr>rc_host = ''0.0.0.0'', rc_port = 8080, rc_schema = QueryInputSchema,
      rc_autocommit_duration_ms = 50\<rparr> # calls \<and>
    list_all2 (\<lambda>(i, r) ev. \<exists>q. map_of r ''query'' = Some (Str q) \<and>
      ev = ChatCompletion \<lparr>chat_api_key = ''key'', chat_text = q, chat_locator = ''gpt'',
             chat_temperature = 0, chat_max_tokens = 60\<rparr>) qs calls \<and>
    list_all2 (\<lambda>(i, r) (j, r'). \<exists>q s. map_of r ''query'' = Some (Str q) \<and>
      chat_completion demo_world \<lparr>chat_api_key = ''key'', chat_text = q, chat_locator = ''gpt'',
        chat_temperature = 0, chat_max_tokens = 60\<rparr> = Inr s \<and>
      map_of r' ''result'' = Some (Str s)) qs
      ([(7, [(''query_id'', Ptr 7), (''result'', Str ''hi'')])] :: int list table))"
proof (intro conjI)
  show "run demo_world ''key'' ''0.0.0.0'' 8080 ''gpt'' 60 0 =
     ([RestConnector \<lparr>rc_host = ''0.0.0.0'', rc_port = 8080, rc_schema = QueryInputSchema,
                      rc_autocommit_duration_ms = 50\<rparr>,
       ChatCompletion \<lparr>chat_api_key = ''key'', chat_text = ''hi'', chat_locator = ''gpt'',
                       chat_temperature = 0, chat_max_tokens = 60\<rparr>],
      Inr [(7, [(''query_id'', Ptr 7), (''result'', Str ''hi'')])])"
    by (rule demo_run)
next
  show "\<exists>qs calls.
    rest_requests demo_world \<lparr>rc_host = ''0.0.0.0'', rc_port = 8080,
      rc_schema = QueryInputSchema, rc_autocommit_duration_ms = 50\<rparr> = Inr qs \<and>
    [RestConnector \<lparr>rc_host = ''0.0.0.0'', rc_port = 8080, rc_schema = QueryInputSchema,
                      rc_autocommit_duration_ms = 50\<rparr>,
     ChatCompletion \<lparr>chat_api_key = ''key'', chat_text = ''hi'', chat_locator = ''gpt'',
                       chat_temperature = (0 :: int), chat_max_tokens = 60\<rparr>]
      = RestConnector \<lparr>rc_host = ''0.0.0.0'', rc_port = 8080, rc_schema = QueryInputSchema,
      rc_autocommit_duration_ms = 50\<rparr> # calls \<and>
    list_all2 (\<lambda>(i, r) ev. \<exists>q. map_of r ''query'' = Some (Str q) \<and>
      ev = ChatCompletion \<lparr>chat_api_key = ''key'', chat_text = q, chat_locator = ''gpt'',
             chat_temperature = 0, chat_max_tokens = 60\<rparr>) qs calls \<and>
    list_all2 (\<lambda>(i, r) (j, r'). \<exists>q s. map_of r ''query'' = Some (Str q) \<and>
      chat_completion demo_world \<lparr>chat_api_key = ''key'', chat_text = q, chat_locator = ''gpt'',
        chat_temperature = 0, chat_max_tokens = 60\<rparr> = Inr s \<and>
      map_of r' ''result'' = Some (Str s)) qs
      ([(7, [(''query_id'', Ptr 7), (''result'', Str ''hi'')])] :: int list table)"
    by (rule contextless_result_is_model_reply [OF demo_run])
qed

text \<open>
  \<^bold>\<open>C3.\<close> The query input schema of both pipelines declares exactly two columns, the
  string columns \<^verbatim>\<open>query\<close> and \<^verbatim>\<open>user\<close>, and it is with this schema that either pipeline
  opens its HTTP endpoint: the contextless pipeline as its first external call, the
  context-aware one in every call it makes to the HTTP connector.
\<close>

theorem query_schema_is_query_and_user:
  fixes W :: "('t, 'v) world"
  shows
  "QueryInputSchema = [(''query'', PyStr), (''user'', PyStr)] \<and>
   QueryInputSchema_s3 = [(''query'', PyStr), (''user'', PyStr)] \<and>
   (\<exists>calls. fst (run W k h p loc mt temp) =
      RestConnector \<lparr>rc_host = h, rc_port = p,
        rc_schema = [(''query'', PyStr), (''user'', PyStr)],
        rc_autocommit_duration_ms = 50\<rparr> # calls) \<and>
   (\<forall>ev\<in>set (fst (run W k h p loc mt temp)). \<forall>c. ev = RestConnector c \<longrightarrow>
      rc_schema c = [(''query'', PyStr), (''user'', PyStr)]) \<and>
   (\<forall>ev\<in>set (fst (run_s3 W config)). \<forall>c. ev = RestConnector c \<longrightarrow>
      rc_schema c = [(''query'', PyStr), (''user'', PyStr)])"
proof (intro conjI)
  show "QueryInputSchema = [(''query'', PyStr), (''user'', PyStr)]"
    by (simp add: QueryInputSchema_def)
  show "QueryInputSchema_s3 = [(''query'', PyStr), (''user'', PyStr)]"
    by (simp add: QueryInputSchema_s3_def)
  show "\<exists>calls. fst (run W k h p loc mt temp) =
      RestConnector \<lparr>rc_host = h, rc_port = p,
        rc_schema = [(''query'', PyStr), (''user'', PyStr)],
        rc_autocommit_duration_ms = 50\<rparr> # calls"
    by (simp add: run_def rest_connector_def Let_def external_def io_bind_def
          QueryInputSchema_def split: sum.splits prod.splits)
  show "\<forall>ev\<in>set (fst (run W k h p loc mt temp)). \<forall>c. ev = RestConnector c \<longrightarrow>
      rc_schema c = [(''query'', PyStr), (''user'', PyStr)]"
    by (rule run_events) (simp_all add: QueryInputSchema_def)
  show "\<forall>ev\<in>set (fst (run_s3 W config)). \<forall>c. ev = RestConnector c \<longrightarrow>
      rc_schema c = [(''query'', PyStr), (''user'', PyStr)]"
    by (rule run_s3_events) (simp_all add: QueryInputSchema_s3_def)
qed

theorem query_schema_is_query_and_user_witness:
  "RestConnector \<lparr>rc_host = ''0.0.0.0'', rc_port = 8080, rc_schema = QueryInputSchema,
      rc_autocommit_duration_ms = 50\<rparr>
     \<in> set (fst (run demo_world ''key'' ''0.0.0.0'' 8080 ''gpt'' 60 0)) \<and>
   RestConnector \<lparr>rc_host = ''0.0.0.0'', rc_port = 8080, rc_schema = QueryInputSchema_s3,
      rc_autocommit_duration_ms = 50\<rparr>
     \<in> set (fst (run_s3 demo_world demo_config)) \<and>
   rc_schema \<lparr>rc_host = ''0.0.0.0'', rc_port = 8080, rc_schema = QueryInputSchema,
      rc_autocommit_duration_ms = 50\<rparr> = [(''query'', PyStr), (''user'', PyStr)] \<and>
   rc_schema \<lparr>rc_host = ''0.0.0.0'', rc_port = 8080, rc_schema = QueryInputSchema_s3,
      rc_autocommit_duration_ms = 50\<rparr> = [(''query'', PyStr), (''user'', PyStr)]"
proof -
  have 1: "RestConnector \<lparr>rc_host = ''0.0.0.0'', rc_port = 8080, rc_schema = QueryInputSchema,
      rc_autocommit_duration_ms = 50\<rparr>
     \<in> set (fst (run demo_world ''key'' ''0.0.0.0'' 8080 ''gpt'' 60 0))"
    by (simp add: demo_run)
  have 2: "RestConnector \<lparr>rc_host = ''0.0.0.0'', rc_port = 8080, rc_schema = QueryInputSchema_s3,
      rc_autocommit_duration_ms = 50\<rparr>
     \<in> set (fst (run_s3 demo_world demo_config))"
    by (simp add: demo_run_s3)
  note inst = query_schema_is_query_and_user [where W = demo_world and k = "''key''"
      and h = "''0.0.0.0''" and p = 8080 and loc = "''gpt''" and mt = 60 and temp = 0
      and config = demo_config]
  from inst 1 have 3: "rc_schema \<lparr>rc_host = ''0.0.0.0'', rc_port = 8080, rc_schema = QueryInputSchema,
      rc_autocommit_duration_ms = 50\<rparr> = [(''query'', PyStr), (''user'', PyStr)]"
    by blast
  from inst 2 have 4: "rc_schema \<lparr>rc_host = ''0.0.0.0'', rc_port = 8080, rc_schema = QueryInputSchema_s3,
      rc_autocommit_duration_ms = 50\<rparr> = [(''query'', PyStr), (''user'', PyStr)]"
    by blast
  from 1 2 3 4 show ?thesis by blast
qed

text \<open>
  \<^bold>\<open>C4.\<close> The context-aware pipeline begins by reading its documents from the bucket
  \<^verbatim>\<open>pathway-examples\<close> under \<^verbatim>\<open>llm_demo/data/\<close>, in the framework's \<^verbatim>\<open>json\<close> format
  (one JSON object per line), with a document schema that declares exactly one column, the
  string column \<^verbatim>\<open>doc\<close>.
\<close>

theorem documents_read_as_json_with_doc_column:
  fixes W :: "('t, 'v) world"
  shows
  "DocumentInputSchema = [(''doc'', PyStr)] \<and>
   (\<exists>calls. fst (run_s3 W config) =
      S3Read \<lparr>s3_path = ''llm_demo/data/'', s3_bucket_name = ''pathway-examples'',
        s3_region = ''eu-central-1'', s3_format = ''json'', s3_schema = [(''doc'', PyStr)],
        s3_mode = ''streaming''\<rparr> # calls)"
  by (simp add: run_s3_def s3_read_def Let_def external_def io_bind_def DocumentInputSchema_def
        split: sum.splits prod.splits)


text \<open>
  \<^bold>\<open>C5.\<close> Every response row that either pipeline hands to the response writer has
  exactly two columns: \<^verbatim>\<open>query_id\<close>, holding the identifier of the row, and
  \<^verbatim>\<open>result\<close>, holding a string.
\<close>

theorem response_has_query_id_and_result:
  fixes W :: "('t, 'v) world"
  shows
  "(run W k h p loc mt temp = (log, Inr resp) \<longrightarrow>
      (\<forall>(j, r')\<in>set resp. \<exists>s. r' = [(''query_id'', Ptr j), (''result'', Str s)])) \<and>
   (run_s3 W config = (log', Inr resp') \<longrightarrow>
      (\<forall>(j, r')\<in>set resp'. \<exists>s. r' = [(''query_id'', Ptr j), (''result'', Str s)]))"
proof (intro conjI impI)
  assume "run W k h p loc mt temp = (log, Inr resp)"
  from run_answers [OF this] obtain qs :: "'v table" where
    "list_all2 (\<lambda>(i, r) (j, r'). j = i \<and> (\<exists>s. r' = [(''query_id'', Ptr i), (''result'', Str s)]))
      qs resp"
    by blast
  then show "\<forall>(j, r')\<in>set resp. \<exists>s. r' = [(''query_id'', Ptr j), (''result'', Str s)]"
    by (rule rows_two_columns)
next
  assume "run_s3 W config = (log', Inr resp')"
  from run_s3_answers [OF this] obtain answered :: "'v table" where
    "list_all2 (\<lambda>(i, r) (j, r'). j = i \<and> (\<exists>s. r' = [(''query_id'', Ptr i), (''result'', Str s)]))
      answered resp'"
    by blast
  then show "\<forall>(j, r')\<in>set resp'. \<exists>s. r' = [(''query_id'', Ptr j), (''result'', Str s)]"
    by (rule rows_two_columns)
qed

theorem response_has_query_id_and_result_witness:
  "run demo_world ''key'' ''0.0.0.0'' 8080 ''gpt'' 60 0 =
     ([RestConnector \<lparr>rc_host = ''0.0.0.0'', rc_port = 8080, rc_schema = QueryInputSchema,
                      rc_autocommit_duration_ms = 50\<rparr>,
       ChatCompletion \<lparr>chat_api_key = ''key'', chat_text = ''hi'', chat_locator = ''gpt'',
                       chat_temperature = 0, chat_max_tokens = 60\<rparr>],
      Inr [(7, [(''query_id'', Ptr 7), (''result'', Str ''hi'')])]) \<and>
   (\<exists>s. ([(''query_id'', Ptr 7), (''result'', Str ''hi'')] :: int list row)
      = [(''query_id'', Ptr 7), (''result'', Str s)]) \<and>
   snd (run_s3 demo_world demo_config) =
     Inr [(7, [(''query_id'', Ptr 7),
               (''result'', Str ''Given the following documents : \<newline> a\<newline>b \<newline>answer this query: hi'')])] \<and>
   (\<exists>s. ([(''query_id'', Ptr 7),
          (''result'', Str ''Given the following documents : \<newline> a\<newline>b \<newline>answer this query: hi'')]
           :: int list row)
      = [(''query_id'', Ptr 7), (''result'', Str s)])"
proof (intro conjI)
  show "run demo_world ''key'' ''0.0.0.0'' 8080 ''gpt'' 60 0 =
     ([RestConnector \<lparr>rc_host = ''0.0.0.0'', rc_port = 8080, rc_schema = QueryInputSchema,
                      rc_autocommit_duration_ms = 50\<rparr>,
       ChatCompletion \<lparr>chat_api_key = ''key'', chat_text = ''hi'', chat_locator = ''gpt'',
                       chat_temperature = 0, chat_max_tokens = 60\<rparr>],
      Inr [(7, [(''query_id'', Ptr 7), (''result'', Str ''hi'')])])"
    by (rule demo_run)
  have "\<forall>(j, r')\<in>set ([(7, [(''query_id'', Ptr 7), (''result'', Str ''hi'')])] :: int list table).
      \<exists>s. r' = [(''query_id'', Ptr j), (''result'', Str s)]"
    by (rule response_has_query_id_and_result [THEN conjunct1, THEN mp, OF demo_run])
  then show "\<exists>s. ([(''query_id'', Ptr 7), (''result'', Str ''hi'')] :: int list row)
      = [(''query_id'', Ptr 7), (''result'', Str s)]"
    by simp
  show "snd (run_s3 demo_world demo_config) =
     Inr [(7, [(''query_id'', Ptr 7),
               (''result'', Str ''Given the following documents : \<newline> a\<newline>b \<newline>answer this query: hi'')])]"
    by (simp add: demo_run_s3)
  have "\<forall>(j, r')\<in>set ([(7, [(''query_id'', Ptr 7),
               (''result'', Str ''Given the following documents : \<newline> a\<newline>b \<newline>answer this query: hi'')])]
           :: int list table).
      \<exists>s. r' = [(''query_id'', Ptr j), (''result'', Str s)]"
    by (rule response_has_query_id_and_result [THEN conjunct2, THEN mp, OF demo_run_s3])
  then show "\<exists>s. ([(''query_id'', Ptr 7),
          (''result'', Str ''Given the following documents : \<newline> a\<newline>b \<newline>answer this query: hi'')]
           :: int list row)
      = [(''query_id'', Ptr 7), (''result'', Str s)]"
    by simp
qed

text \<open>
  \<^bold>\<open>C6.\<close> Every chat-completion request that a pipeline sends carries the configured model
  locator, temperature and maximal token count, and every embedding request of the
  context-aware pipeline, for a document or for a query, carries the configured embedder
  locator. The contextless pipeline sends no embedding request. This holds for every run,
  whether it ends well or with an exception.
\<close>

theorem outbound_calls_carry_configured_parameters:
  fixes W :: "('t, 'v) world"
  shows
  "(\<forall>ev\<in>set (fst (run W k h p loc mt temp)).
      chat_parameterized loc temp mt ev \<and> (\<forall>req. ev \<noteq> Embedding req)) \<and>
   (\<forall>ev\<in>set (fst (run_s3 W config)).
      chat_parameterized (model_locator config) (temperature config) (max_tokens config) ev \<and>
      embedding_parameterized (embedder_locator config) ev)"
proof (intro conjI)
  show "\<forall>ev\<in>set (fst (run W k h p loc mt temp)).
      chat_parameterized loc temp mt ev \<and> (\<forall>req. ev \<noteq> Embedding req)"
    by (rule run_events) (simp_all add: chat_parameterized_def)
  show "\<forall>ev\<in>set (fst (run_s3 W config)).
      chat_parameterized (model_locator config) (temperature config) (max_tokens config) ev \<and>
      embedding_parameterized (embedder_locator config) ev"
    by (rule run_s3_events)
      (simp_all add: chat_parameterized_def embedding_parameterized_def)
qed

theorem outbound_calls_carry_configured_parameters_witness:
  "ChatCompletion \<lparr>chat_api_key = ''key'', chat_text = ''hi'', chat_locator = ''gpt'',
      chat_temperature = 0, chat_max_tokens = 60\<rparr>
     \<in> set (fst (run demo_world ''key'' ''0.0.0.0'' 8080 ''gpt'' 60 0)) \<and>
   chat_parameterized ''gpt'' (0 :: int) 60
     (ChatCompletion \<lparr>chat_api_key = ''key'', chat_text = ''hi'', chat_locator = ''gpt'',
        chat_temperature = 0, chat_max_tokens = 60\<rparr>) \<and>
   ChatCompletion \<lparr>chat_api_key = ''key'',
      chat_text = ''Given the following documents : \<newline> a\<newline>b \<newline>answer this query: hi'',
      chat_locator = ''gpt'', chat_temperature = 0, chat_max_tokens = 60\<rparr>
     \<in> set (fst (run_s3 demo_world demo_config)) \<and>
   chat_parameterized (model_locator demo_config) (temperature demo_config)
     (max_tokens demo_config)
     (ChatCompletion \<lparr>chat_api_key = ''key'',
        chat_text = ''Given the following documents : \<newline> a\<newline>b \<newline>answer this query: hi'',
        chat_locator = ''gpt'', chat_temperature = 0, chat_max_tokens = 60\<rparr>) \<and>
   Embedding \<lparr>embed_api_key = ''key'', embed_text = ''a'', embed_locator = ''ada''\<rparr>
     \<in> set (fst (run_s3 demo_world demo_config)) \<and>
   Embedding \<lparr>embed_api_key = ''key'', embed_text = ''hi'', embed_locator = ''ada''\<rparr>
     \<in> set (fst (run_s3 demo_world demo_config)) \<and>
   embedding_parameterized (embedder_locator demo_config)
     (Embedding \<lparr>embed_api_key = ''key'', embed_text = ''a'', embed_locator = ''ada''\<rparr>
        :: int event) \<and>
   embedding_parameterized (embedder_locator demo_config)
     (Embedding \<lparr>embed_api_key = ''key'', embed_text = ''hi'', embed_locator = ''ada''\<rparr>
        :: int event)"
proof -
  note inst = outbound_calls_carry_configured_parameters [where W = demo_world
      and k = "''key''" and h = "''0.0.0.0''" and p = 8080 and loc = "''gpt''" and mt = 60
      and temp = 0 and config = demo_config]
  have 1: "ChatCompletion \<lparr>chat_api_key = ''key'', chat_text = ''hi'', chat_locator = ''gpt'',
      chat_temperature = 0, chat_max_tokens = 60\<rparr>
     \<in> set (fst (run demo_world ''key'' ''0.0.0.0'' 8080 ''gpt'' 60 0))"
    by (simp add: demo_run)
  have 2: "ChatCompletion \<lparr>chat_api_key = ''key'',
      chat_text = ''Given the following documents : \<newline> a\<newline>b \<newline>answer this query: hi'',
      chat_locator = ''gpt'', chat_temperature = 0, chat_max_tokens = 60\<rparr>
     \<in> set (fst (run_s3 demo_world demo_config))"
    by (simp add: demo_run_s3)
  have 3: "Embedding \<lparr>embed_api_key = ''key'', embed_text = ''a'', embed_locator = ''ada''\<rparr>
     \<in> set (fst (run_s3 demo_world demo_config))"
    by (simp add: demo_run_s3)
  have 4: "Embedding \<lparr>embed_api_key = ''key'', embed_text = ''hi'', embed_locator = ''ada''\<rparr>
     \<in> set (fst (run_s3 demo_world demo_config))"
    by (simp add: demo_run_s3)
  from inst 1 2 3 4 show ?thesis by blast
qed

lemma join_Cons: "join sep (d # ds) = d @ concat (map (\<lambda>x. sep @ x) ds)"
  by (induction ds arbitrary: d) simp_all

text \<open>
  \<^bold>\<open>C8.\<close> For every list of document strings and every query string,
  \<^verbatim>\<open>build_prompt\<close> returns the text \<^verbatim>\<open>"Given the following documents : \n "\<close>, then the
  documents with a newline between each two of them, then \<^verbatim>\<open>" \nanswer this query: "\<close>,
  then the query; for no documents the part in the middle is empty. It is a function of
  its two arguments and never fails on such arguments: as a column expression on a tuple of
  strings and a string it yields that text without any external call.
\<close>

theorem build_prompt_text:
  "build_prompt documents query =
     ''Given the following documents : \<newline> ''
       @ (case documents of [] \<Rightarrow> [] | d # ds \<Rightarrow> d @ concat (map (\<lambda>x. ''\<newline>'' @ x) ds))
       @ '' \<newline>answer this query: '' @ query \<and>
   build_prompt [] query =
     ''Given the following documents : \<newline>  \<newline>answer this query: '' @ query \<and>
   build_prompt_udf (\<lambda>i r. io_return (Tuple documents)) (\<lambda>i r. io_return (Str query)) i r =
     ([], Inr (Str (build_prompt documents query)))"
proof -
  have single: "(@) [c] = (#) c" for c :: char
    by (intro ext) simp
  show ?thesis
    by (cases documents)
      (simp_all add: build_prompt_def build_prompt_udf_def io_bind_def io_return_def join_Cons
         single del: join.simps(3))
qed

text \<open>
  \<^bold>\<open>C9.\<close> The \<^verbatim>\<open>user\<close> column has no influence on what a pipeline does. Let the HTTP
  connector deliver, in two runs against the same provider, index and documents, query
  records that agree row by row on every column but \<^verbatim>\<open>user\<close> (the row identifiers may
  differ too). Then both runs of either pipeline make the same external calls, end with the
  same exception if they fail, and otherwise return tables with equal \<^verbatim>\<open>result\<close> columns.
\<close>

theorem user_has_no_influence:
  fixes W :: "('t, 'v) world"
  assumes "\<forall>c. rel_sum (=) (list_all2 (\<lambda>(i, r) (j, r'). same_but_user r r'))
             (rest_requests W c) (g c)"
  shows
  "fst (run W k h p loc mt temp) = fst (run (W\<lparr>rest_requests := g\<rparr>) k h p loc mt temp) \<and>
   rel_sum (=) (list_all2 (\<lambda>(i, r) (j, r'). map_of r ''result'' = map_of r' ''result''))
     (snd (run W k h p loc mt temp)) (snd (run (W\<lparr>rest_requests := g\<rparr>) k h p loc mt temp)) \<and>
   fst (run_s3 W config) = fst (run_s3 (W\<lparr>rest_requests := g\<rparr>) config) \<and>
   rel_sum (=) (list_all2 (\<lambda>(i, r) (j, r'). map_of r ''result'' = map_of r' ''result''))
     (snd (run_s3 W config)) (snd (run_s3 (W\<lparr>rest_requests := g\<rparr>) config))"
proof -
  have g: "\<And>c. rel_sum (=) (list_all2 (\<lambda>(i, r) (j, r'). same_but_user r r'))
             (rest_requests W c) (g c)"
    using assms by simp
  show ?thesis
    using run_user_blind [OF g, of k h p loc mt temp] run_s3_user_blind [OF g, of config]
    by (simp add: rel_io_def)
qed

theorem user_has_no_influence_witness:
  "(\<forall>c. rel_sum (=) (list_all2 (\<lambda>(i, r) (j, r'). same_but_user r r'))
          (rest_requests demo_world c) (other_user c)) \<and>
   rest_requests demo_world \<lparr>rc_host = ''0.0.0.0'', rc_port = 8080,
       rc_schema = QueryInputSchema, rc_autocommit_duration_ms = 50\<rparr>
     = Inr [(7, [(''query'', Str ''hi''), (''user'', Str ''ann'')])] \<and>
   other_user \<lparr>rc_host = ''0.0.0.0'', rc_port = 8080,
       rc_schema = QueryInputSchema, rc_autocommit_duration_ms = 50\<rparr>
     = Inr [(8, [(''query'', Str ''hi''), (''user'', Str ''bob'')])] \<and>
   fst (run demo_world ''key'' ''0.0.0.0'' 8080 ''gpt'' 60 0) =
     fst (run (demo_world\<lparr>rest_requests := other_user\<rparr>) ''key'' ''0.0.0.0'' 8080 ''gpt'' 60 0) \<and>
   rel_sum (=) (list_all2 (\<lambda>(i, r) (j, r'). map_of r ''result'' = map_of r' ''result''))
     (snd (run demo_world ''key'' ''0.0.0.0'' 8080 ''gpt'' 60 0))
     (snd (run (demo_world\<lparr>rest_requests := other_user\<rparr>) ''key'' ''0.0.0.0'' 8080 ''gpt'' 60 0)) \<and>
   fst (run_s3 demo_world demo_config) =
     fst (run_s3 (demo_world\<lparr>rest_requests := other_user\<rparr>) demo_config) \<and>
   rel_sum (=) (list_all2 (\<lambda>(i, r) (j, r'). map_of r ''result'' = map_of r' ''result''))
     (snd (run_s3 demo_world demo_config))
     (snd (run_s3 (demo_world\<lparr>rest_requests := other_user\<rparr>) demo_config))"
proof -
  have hyp: "\<forall>c. rel_sum (=) (list_all2 (\<lambda>(i, r) (j, r'). same_but_user r r'))
          (rest_requests demo_world c) (other_user c)"
    by (simp add: demo_world_def other_user_def same_but_user_def)
  have rows: "rest_requests demo_world \<lparr>rc_host = ''0.0.0.0'', rc_port = 8080,
       rc_schema = QueryInputSchema, rc_autocommit_duration_ms = 50\<rparr>
     = Inr [(7, [(''query'', Str ''hi''), (''user'', Str ''ann'')])]"
    "other_user \<lparr>rc_host = ''0.0.0.0'', rc_port = 8080,
       rc_schema = QueryInputSchema, rc_autocommit_duration_ms = 50\<rparr>
     = Inr [(8, [(''query'', Str ''hi''), (''user'', Str ''bob'')])]"
    by (simp_all add: demo_world_def other_user_def)
  from user_has_no_influence [OF hyp, where k = "''key''" and h = "''0.0.0.0''" and p = 8080
      and loc = "''gpt''" and mt = 60 and temp = 0 and config = demo_config] hyp rows
  show ?thesis by blast
qed



end
